theory Spec2Isabelle
  imports Main
begin

section \<open>Values, task states and the Task object\<close>

text \<open>
  Python values that travel through the task backend as opaque data (task arguments,
  results, the values of keyword arguments). A \<open>datetime\<close> is represented by its
  number of seconds, a \<open>timedelta\<close> by its length in seconds. \<open>PFailure\<close> is pulsar's
  failure wrapper (what \<open>maybe_failure\<close> builds and \<open>is_failure\<close> recognises); it
  carries the text that \<open>str\<close> returns for it.
\<close>

datatype pyval =
    PNone
  | PBool bool
  | PInt int
  | PStr string
  | PDateTime int
  | PFailure string
  | PTuple "pyval list"
  | PList "pyval list"
  | PDict "(string \<times> pyval) list"

type_synonym datetime = int
type_synonym timedelta = int
type_synonym kwargs_t = "(string \<times> pyval) list"

text \<open>
  Whether Python can hash a value, which a dictionary lookup and a set membership test
  do first: a list and a dict cannot be hashed, a tuple can when its items can.
\<close>

fun hashable :: "pyval \<Rightarrow> bool" where
  "hashable (PList xs) = False"
| "hashable (PDict kv) = False"
| "hashable (PTuple xs) = list_all hashable xs"
| "hashable v = True"

text \<open>The exceptions the backend raises or catches, and the text of each.\<close>

datatype exn =
    TaskTimeout
  | TaskNotAvailable string
  | RuntimeError string
  | KeyError string
  | TypeError string
  | ValueError string
  | OverflowError string
  | ZeroDivisionError
  | AttributeError string
  | OtherError string

fun exn_text :: "exn \<Rightarrow> string" where
  "exn_text TaskTimeout = ''TaskTimeout''"
| "exn_text (TaskNotAvailable n) = ''Task '' @ n @ '' is not registered. Check your settings.''"
| "exn_text (RuntimeError m) = m"
| "exn_text (KeyError m) = m"
| "exn_text (TypeError m) = m"
| "exn_text (ValueError m) = m"
| "exn_text (OverflowError m) = m"
| "exn_text ZeroDivisionError = ''division by zero''"
| "exn_text (AttributeError m) = m"
| "exn_text (OtherError m) = m"

text \<open>The status strings and the state sets listed in the module documentation.\<close>

definition PENDING :: string where "PENDING = ''PENDING''"
definition QUEUED :: string where "QUEUED = ''QUEUED''"
definition RETRY :: string where "RETRY = ''RETRY''"
definition STARTED :: string where "STARTED = ''STARTED''"
definition REVOKED :: string where "REVOKED = ''REVOKED''"
definition UNKNOWN :: string where "UNKNOWN = ''UNKNOWN''"
definition FAILURE :: string where "FAILURE = ''FAILURE''"
definition SUCCESS :: string where "SUCCESS = ''SUCCESS''"

definition ALL_STATES :: "string list" where
  "ALL_STATES = [PENDING, QUEUED, RETRY, STARTED, REVOKED, UNKNOWN, FAILURE, SUCCESS]"

definition FULL_RUN_STATES :: "string list" where
  "FULL_RUN_STATES = [FAILURE, SUCCESS]"

definition READY_STATES :: "string list" where
  "READY_STATES = [REVOKED, FAILURE, SUCCESS]"

text \<open>
  The module \<open>pulsar.apps.tasks.states\<close> is imported, not defined, by the backend: its
  precedence table and the constant \<open>UNKNOWN_STATE\<close> are parameters of the model.
  \<open>states_wf\<close> says what the documentation says of them: the table ranks exactly the
  eight status strings and \<open>UNKNOWN_STATE\<close> is the rank of \<open>UNKNOWN\<close>.
\<close>

record states =
  PRECEDENCE_MAPPING :: "string \<rightharpoonup> int"
  UNKNOWN_STATE :: int

definition states_wf :: "states \<Rightarrow> bool" where
  "states_wf st \<longleftrightarrow>
     dom (PRECEDENCE_MAPPING st) = set ALL_STATES \<and>
     PRECEDENCE_MAPPING st UNKNOWN = Some (UNKNOWN_STATE st)"

text \<open>
  \<open>class Task\<close>. The constructor takes \<open>id\<close> and the optional keywords; it always sets
  \<open>time_started\<close> and \<open>time_ended\<close> to \<open>None\<close> and keeps unknown keywords in \<open>params\<close>.
  It stores whatever it is given as \<open>status\<close>, so \<open>status\<close> is any Python value.
\<close>

record task =
  id_task :: string
  name :: "string option"
  time_executed :: "datetime option"
  from_task :: "string option"
  time_started :: "datetime option"
  time_ended :: "datetime option"
  expiry :: "datetime option"
  args :: "pyval list option"
  kwargs :: "kwargs_t option"
  status :: pyval
  result :: pyval
  params :: kwargs_t

definition Task :: "string \<Rightarrow> task" where
  "Task i = \<lparr> id_task = i, name = None, time_executed = None, from_task = None,
              time_started = None, time_ended = None, expiry = None, args = None,
              kwargs = None, status = PNone, result = PNone, params = [] \<rparr>"

text \<open>
  \<open>Task.status_code\<close>: \<open>PRECEDENCE_MAPPING.get(self.status, UNKNOWN_STATE)\<close>. The
  lookup hashes the status: on one that cannot be hashed it raises \<open>TypeError\<close>. The
  keys of the table are strings, so any other value that can be hashed gets the default.
\<close>

definition status_code :: "states \<Rightarrow> task \<Rightarrow> exn + int" where
  "status_code st t =
     (if \<not> hashable (status t) then Inl (TypeError ''unhashable type'')
      else
        (case status t of
           PStr s \<Rightarrow> (case PRECEDENCE_MAPPING st s of
                        None \<Rightarrow> Inr (UNKNOWN_STATE st)
                      | Some n \<Rightarrow> Inr n)
         | _ \<Rightarrow> Inr (UNKNOWN_STATE st)))"

text \<open>
  \<open>Task.done\<close>: \<open>self.status in READY_STATES\<close>. \<open>READY_STATES\<close> is documented as a set,
  so the membership test hashes the status as well.
\<close>

definition task_done :: "task \<Rightarrow> exn + bool" where
  "task_done t =
     (if \<not> hashable (status t) then Inl (TypeError ''unhashable type'')
      else
        (case status t of
           PStr s \<Rightarrow> Inr (s \<in> set READY_STATES)
         | _ \<Rightarrow> Inr False))"

text \<open>
  \<open>Task.tojson\<close>: \<open>self.__dict__.copy()\<close>, the attribute dictionary as it is. The
  injections below are the Python values of the typed fields.
\<close>

definition py_str :: "string option \<Rightarrow> pyval" where
  "py_str s = (case s of None \<Rightarrow> PNone | Some x \<Rightarrow> PStr x)"

definition py_datetime :: "datetime option \<Rightarrow> pyval" where
  "py_datetime d = (case d of None \<Rightarrow> PNone | Some x \<Rightarrow> PDateTime x)"

definition py_tuple :: "pyval list option \<Rightarrow> pyval" where
  "py_tuple a = (case a of None \<Rightarrow> PNone | Some xs \<Rightarrow> PTuple xs)"

definition py_dict :: "kwargs_t option \<Rightarrow> pyval" where
  "py_dict k = (case k of None \<Rightarrow> PNone | Some kv \<Rightarrow> PDict kv)"

definition tojson :: "task \<Rightarrow> kwargs_t" where
  "tojson t =
     [(''id'', PStr (id_task t)),
      (''name'', py_str (name t)),
      (''time_executed'', py_datetime (time_executed t)),
      (''from_task'', py_str (from_task t)),
      (''time_started'', py_datetime (time_started t)),
      (''time_ended'', py_datetime (time_ended t)),
      (''expiry'', py_datetime (expiry t)),
      (''args'', py_tuple (args t)),
      (''kwargs'', py_dict (kwargs t)),
      (''status'', status t),
      (''result'', result t),
      (''params'', PDict (params t))]"

section \<open>Jobs, scheduler entries and the backend state\<close>

text \<open>
  Modelled from the spec: \<open>maybe_failure\<close>, \<open>is_failure\<close> and the failure object are
  imported from the pulsar core, which is not among the sources. The failure object is
  the generic failure-wrapping object that carries the stringified traceback:
  \<open>maybe_failure(sys.exc_info())\<close> wraps the exception being handled, \<open>is_failure\<close>
  recognises the wrapper and \<open>str\<close> gives its text.
\<close>

definition maybe_failure :: "exn \<Rightarrow> pyval" where
  "maybe_failure e = PFailure (exn_text e)"

definition is_failure :: "pyval \<Rightarrow> bool" where
  "is_failure v = (case v of PFailure _ \<Rightarrow> True | _ \<Rightarrow> False)"

definition str_failure :: "pyval \<Rightarrow> string" where
  "str_failure v = (case v of PFailure m \<Rightarrow> m | _ \<Rightarrow> [])"

text \<open>
  The three kinds of value \<open>get_datetime\<close> tells apart: a datetime, a timedelta and
  anything else, which is read as a POSIX timestamp.
\<close>

datatype expiry_arg = AtDatetime datetime | AfterTimedelta timedelta | EpochSeconds int

text \<open>
  The values a \<open>datetime\<close> can take, in seconds from the epoch: from the first second of
  year 1 to the last second of year 9999. Adding a timedelta beyond them raises
  \<open>OverflowError\<close>, and \<open>datetime.fromtimestamp\<close> raises on a timestamp beyond them
  (\<open>ValueError\<close>; the bounds of \<open>fromtimestamp\<close> are the platform's and may be
  narrower).
\<close>

definition datetime_min :: int where "datetime_min = - 62135596800"
definition datetime_max :: int where "datetime_max = 253402300799"

definition in_datetime_range :: "int \<Rightarrow> bool" where
  "in_datetime_range d \<longleftrightarrow> datetime_min \<le> d \<and> d \<le> datetime_max"

definition get_datetime :: "expiry_arg \<Rightarrow> datetime \<Rightarrow> exn + datetime" where
  "get_datetime e start =
     (case e of
        AtDatetime d \<Rightarrow> Inr d
      | AfterTimedelta td \<Rightarrow>
          if in_datetime_range (start + td) then Inr (start + td)
          else Inl (OverflowError ''date value out of range'')
      | EpochSeconds n \<Rightarrow>
          if in_datetime_range n then Inr n
          else Inl (ValueError ''timestamp out of range''))"

text \<open>Python truth value of a job's \<open>timeout\<close> attribute.\<close>

definition truthy_timeout :: "expiry_arg option \<Rightarrow> bool" where
  "truthy_timeout e =
     (case e of
        None \<Rightarrow> False
      | Some (AtDatetime d) \<Rightarrow> True
      | Some (AfterTimedelta td) \<Rightarrow> td \<noteq> 0
      | Some (EpochSeconds n) \<Rightarrow> n \<noteq> 0)"

text \<open>
  What the backend uses of a job: its name, its timeout, \<open>make_task_id\<close> and the
  callable body, which either returns a value or raises.
\<close>

datatype outcome = Returns pyval | Raises exn

record job =
  job_name :: string
  timeout :: "expiry_arg option"
  make_task_id :: "pyval list \<Rightarrow> kwargs_t \<Rightarrow> string"
  body :: "pyval list \<Rightarrow> kwargs_t \<Rightarrow> outcome"

text \<open>\<open>class Schedule\<close> and \<open>class SchedulerEntry\<close>.\<close>

record schedule =
  run_every :: timedelta
  anchor :: "datetime option"

record scheduler_entry =
  entry_name :: string
  entry_schedule :: schedule
  last_run_at :: datetime
  total_run_count :: int

text \<open>
  The calls the backend makes on its storage operations, its hooks, the job body, the
  logger and the worker's event loop, in the order they are made.
\<close>

datatype event =
    GetTask "string option"
  | SaveTask string kwargs_t
  | DeleteTasks "string list"
  | PutTask string
  | OnStartTask string
  | CallJob string "pyval list" kwargs_t
  | OnFinishTask string
  | FailureLog string
  | LoggerDebug string
  | LoggerException string
  | LoggerWarning string
  | LoggerInfo string
  | ApplyAsync string
  | CallSoonPoller
  | PostDoneTask string

text \<open>
  The state of a \<open>TaskBackend\<close>: its attributes, the task store and queue behind its
  storage operations, the trace of calls, the wall clock read by \<open>datetime.now()\<close>
  (reading number \<open>n\<close> gives \<open>clock n\<close>) and the supply of random ids behind the
  module-level \<open>create_task_id()\<close>.
\<close>

record backend =
  registry :: "string \<rightharpoonup> job"
  schedule_periodic :: bool
  entries :: "(string \<times> scheduler_entry) list option"
  next_run :: datetime
  store :: "string \<rightharpoonup> task"
  queue :: "string list"
  log :: "event list"
  clock :: "nat \<Rightarrow> datetime"
  clock_reads :: nat
  uuids :: "nat \<Rightarrow> string"
  uuids_made :: nat

definition emit :: "event \<Rightarrow> backend \<Rightarrow> backend" where
  "emit e b = b\<lparr>log := log b @ [e]\<rparr>"

definition datetime_now :: "backend \<Rightarrow> datetime \<times> backend" where
  "datetime_now b = (clock b (clock_reads b), b\<lparr>clock_reads := Suc (clock_reads b)\<rparr>)"

definition fresh_task_id :: "backend \<Rightarrow> string \<times> backend" where
  "fresh_task_id b = (uuids b (uuids_made b), b\<lparr>uuids_made := Suc (uuids_made b)\<rparr>)"

subsection \<open>Storage operations\<close>

text \<open>
  Modelled from the spec: \<open>put_task\<close>, \<open>get_task\<close>, \<open>save_task\<close> and \<open>delete_tasks\<close>
  are abstract in \<open>TaskBackend\<close> (each raises \<open>NotImplementedError\<close>) and no concrete
  backend is among the sources. They follow the contract table: \<open>get_task\<close> with an id
  is a point lookup, \<open>save_task\<close> is an upsert in which the last writer wins per field,
  \<open>delete_tasks\<close> removes the given ids and is idempotent, \<open>put_task\<close> appends the id to
  the queue. \<open>save_task\<close> results in the task id, as \<open>create_task\<close> documents. Each
  operation records its call in the trace.
\<close>

definition as_str :: "pyval \<Rightarrow> string option" where
  "as_str v = (case v of PStr s \<Rightarrow> Some s | _ \<Rightarrow> None)"

definition as_datetime :: "pyval \<Rightarrow> datetime option" where
  "as_datetime v = (case v of PDateTime d \<Rightarrow> Some d | _ \<Rightarrow> None)"

definition as_tuple :: "pyval \<Rightarrow> pyval list option" where
  "as_tuple v = (case v of PTuple xs \<Rightarrow> Some xs | _ \<Rightarrow> None)"

definition as_dict :: "pyval \<Rightarrow> kwargs_t option" where
  "as_dict v = (case v of PDict kv \<Rightarrow> Some kv | _ \<Rightarrow> None)"

definition setattr_task :: "string \<times> pyval \<Rightarrow> task \<Rightarrow> task" where
  "setattr_task kv t =
     (let k = fst kv; v = snd kv in
      if k = ''name'' then t\<lparr>name := as_str v\<rparr>
      else if k = ''time_executed'' then t\<lparr>time_executed := as_datetime v\<rparr>
      else if k = ''from_task'' then t\<lparr>from_task := as_str v\<rparr>
      else if k = ''time_started'' then t\<lparr>time_started := as_datetime v\<rparr>
      else if k = ''time_ended'' then t\<lparr>time_ended := as_datetime v\<rparr>
      else if k = ''expiry'' then t\<lparr>expiry := as_datetime v\<rparr>
      else if k = ''args'' then t\<lparr>args := as_tuple v\<rparr>
      else if k = ''kwargs'' then t\<lparr>kwargs := as_dict v\<rparr>
      else if k = ''status'' then t\<lparr>status := v\<rparr>
      else if k = ''result'' then t\<lparr>result := v\<rparr>
      else if k = ''params'' then t\<lparr>params := (case as_dict v of None \<Rightarrow> [] | Some d \<Rightarrow> d)\<rparr>
      else t\<lparr>params := (k, v) # filter (\<lambda>p. fst p \<noteq> k) (params t)\<rparr>)"

definition get_task :: "string \<Rightarrow> backend \<Rightarrow> task option \<times> backend" where
  "get_task task_id b = (store b task_id, emit (GetTask (Some task_id)) b)"

definition save_task :: "string \<Rightarrow> kwargs_t \<Rightarrow> backend \<Rightarrow> string \<times> backend" where
  "save_task task_id kw b =
     (let old = (case store b task_id of None \<Rightarrow> Task task_id | Some t \<Rightarrow> t)
      in (task_id,
          emit (SaveTask task_id kw)
            (b\<lparr>store := (store b)(task_id \<mapsto> fold setattr_task kw old)\<rparr>)))"

definition delete_tasks :: "string list \<Rightarrow> backend \<Rightarrow> backend" where
  "delete_tasks task_ids b =
     emit (DeleteTasks task_ids)
       (b\<lparr>store := (\<lambda>k. if k \<in> set task_ids then None else store b k)\<rparr>)"

definition put_task :: "string \<Rightarrow> backend \<Rightarrow> backend" where
  "put_task task_id b = emit (PutTask task_id) (b\<lparr>queue := queue b @ [task_id]\<rparr>)"

subsection \<open>Creating tasks\<close>

text \<open>
  The coroutines \<open>create_task\<close>, \<open>handle_task_done\<close>, \<open>_run_job\<close> and \<open>_execute_task\<close>
  are generators whose last yielded value is their result; each \<open>yield\<close> of a storage
  call hands back that call's result. They are modelled as run to completion, one call
  after the other, on the backend state.
\<close>

text \<open>\<open>SchedulerEntry.next\<close> with no \<open>now\<close>: one reading of the clock, one more run.\<close>

definition entry_next :: "scheduler_entry \<Rightarrow> backend \<Rightarrow> scheduler_entry \<times> backend" where
  "entry_next e b =
     (let (now, b1) = datetime_now b
      in (e\<lparr>last_run_at := now, total_run_count := total_run_count e + 1\<rparr>, b1))"

definition set_entry ::
  "string \<Rightarrow> scheduler_entry \<Rightarrow> (string \<times> scheduler_entry) list
     \<Rightarrow> (string \<times> scheduler_entry) list" where
  "set_entry k e es = map (\<lambda>p. if fst p = k then (k, e) else p) es"

text \<open>\<open>TaskBackend.create_task_id\<close>: \<open>job.make_task_id(args, kwargs)\<close>.\<close>

definition create_task_id :: "job \<Rightarrow> pyval list \<Rightarrow> kwargs_t \<Rightarrow> string" where
  "create_task_id j a k = make_task_id j a k"

text \<open>\<open>TaskBackend.handle_task_done\<close>.\<close>

definition handle_task_done :: "task \<Rightarrow> backend \<Rightarrow> task option \<times> backend" where
  "handle_task_done t b =
     (let (new_id, b1) = fresh_task_id b;
          data = filter (\<lambda>p. fst p \<noteq> ''id'') (tojson t);
          b2 = delete_tasks [id_task t] b1;
          (r, b3) = save_task new_id data b2
      in (None, b3))"

text \<open>
  \<open>if self.entries and job.name in self.entries: self.entries[job.name].next()\<close>
\<close>

definition advance_entry :: "job \<Rightarrow> backend \<Rightarrow> backend" where
  "advance_entry j b =
     (case entries b of
        None \<Rightarrow> b
      | Some es \<Rightarrow>
          (case map_of es (job_name j) of
             None \<Rightarrow> b
           | Some e \<Rightarrow>
               (let (e', b1) = entry_next e b
                in b1\<lparr>entries := Some (set_entry (job_name j) e' es)\<rparr>)))"

text \<open>
  Lines 406 to 409 of \<open>create_task\<close>: the expiry of the new task, from the \<open>expiry\<close>
  argument if there is one, else from a true \<open>job.timeout\<close>, else \<open>None\<close>.
\<close>

definition compute_expiry ::
  "expiry_arg option \<Rightarrow> job \<Rightarrow> datetime \<Rightarrow> exn + datetime option" where
  "compute_expiry expiry_a j t_exec =
     (case expiry_a of
        Some e \<Rightarrow> (case get_datetime e t_exec of Inl x \<Rightarrow> Inl x | Inr d \<Rightarrow> Inr (Some d))
      | None \<Rightarrow>
          if truthy_timeout (timeout j)
          then (case get_datetime (the (timeout j)) t_exec of
                  Inl x \<Rightarrow> Inl x
                | Inr d \<Rightarrow> Inr (Some d))
          else Inr None)"

text \<open>
  The call \<open>self.save_task(task_id, name=..., time_executed=..., expiry=..., args=...,
  kwargs=..., status=..., **params)\<close> raises \<open>TypeError\<close> when \<open>params\<close> has a key that
  repeats one of the keywords written out or a parameter of \<open>save_task(self, task_id,
  **params)\<close>.
\<close>

definition repeated_keyword :: "kwargs_t \<Rightarrow> bool" where
  "repeated_keyword meta \<longleftrightarrow>
     (\<exists>k \<in> set (map fst meta).
        k \<in> set [''name'', ''time_executed'', ''expiry'', ''args'', ''kwargs'', ''status'',
                  ''task_id'', ''self''])"

text \<open>
  \<open>TaskBackend.create_task\<close>; \<open>meta\<close> is the dictionary \<open>**params\<close>. An exception
  leaves the state as the calls before it made it.
\<close>

definition create_task ::
  "string \<Rightarrow> pyval list option \<Rightarrow> kwargs_t option \<Rightarrow> expiry_arg option \<Rightarrow> kwargs_t
     \<Rightarrow> backend \<Rightarrow> (exn + string option) \<times> backend" where
  "create_task jobname targs tkwargs expiry_a meta b =
     (case registry b jobname of
        None \<Rightarrow> (Inl (TaskNotAvailable jobname), b)
      | Some j \<Rightarrow>
          (let targs1 = (case targs of None \<Rightarrow> [] | Some a \<Rightarrow> a);
               tkwargs1 = (case tkwargs of None \<Rightarrow> [] | Some k \<Rightarrow> k);
               task_id = create_task_id j targs1 tkwargs1;
               (found, b1) = get_task task_id b
           in case (case found of
                      None \<Rightarrow> Inr (None, b1)
                    | Some t \<Rightarrow>
                        (case task_done t of
                           Inl x \<Rightarrow> Inl x
                         | Inr d \<Rightarrow> if d then Inr (handle_task_done t b1)
                                    else Inr (Some t, b1))) of
                Inl x \<Rightarrow> (Inl x, b1)
              | Inr (Some t, b2) \<Rightarrow>
                  (Inr None, emit (LoggerDebug ''already requested, abort'') b2)
              | Inr (None, b2) \<Rightarrow>
                  (let b3 = advance_entry j b2;
                       (t_exec, b4) = datetime_now b3
                   in case compute_expiry expiry_a j t_exec of
                        Inl x \<Rightarrow> (Inl x, b4)
                      | Inr expiry1 \<Rightarrow>
                          (let b5 = emit (LoggerDebug ''queue new task'') b4
                           in if repeated_keyword meta
                              then (Inl (TypeError ''got multiple values for keyword argument''),
                                    b5)
                              else
                                (let (r, b6) = save_task task_id
                                       ([(''name'', PStr (job_name j)),
                                         (''time_executed'', PDateTime t_exec),
                                         (''expiry'', py_datetime expiry1),
                                         (''args'', PTuple targs1),
                                         (''kwargs'', PDict tkwargs1),
                                         (''status'', PStr PENDING)] @ meta) b5
                                 in (Inr (Some r), b6))))))"

text \<open>\<open>TaskBackend._run_job\<close>: put the id in the queue when \<open>create_task\<close> gave one.\<close>

definition run_job_internal ::
  "string \<Rightarrow> pyval list option \<Rightarrow> kwargs_t option \<Rightarrow> expiry_arg option \<Rightarrow> kwargs_t
     \<Rightarrow> backend \<Rightarrow> (exn + string option) \<times> backend" where
  "run_job_internal jobname targs tkwargs expiry_a meta b =
     (case create_task jobname targs tkwargs expiry_a meta b of
        (Inl e, b1) \<Rightarrow> (Inl e, b1)
      | (Inr None, b1) \<Rightarrow> (Inr None, b1)
      | (Inr (Some task_id), b1) \<Rightarrow>
          if task_id \<noteq> [] then (Inr (Some task_id), put_task task_id b1)
          else (Inr (Some task_id), b1))"

text \<open>\<open>TaskBackend.run_job\<close>: \<open>_run_job\<close> with \<open>log_failure\<close> as its error callback.\<close>

definition run_job ::
  "string \<Rightarrow> pyval list option \<Rightarrow> kwargs_t option \<Rightarrow> expiry_arg option \<Rightarrow> kwargs_t
     \<Rightarrow> backend \<Rightarrow> (exn + string option) \<times> backend" where
  "run_job jobname targs tkwargs expiry_a meta b =
     (case run_job_internal jobname targs tkwargs expiry_a meta b of
        (Inl e, b1) \<Rightarrow> (Inl e, emit (FailureLog (exn_text e)) b1)
      | (Inr r, b1) \<Rightarrow> (Inr r, b1))"

subsection \<open>Executing a task\<close>

text \<open>
  \<open>job(consumer, *task.args, **task.kwargs)\<close>: unpacking \<open>None\<close> is a \<open>TypeError\<close>.
\<close>

definition call_job :: "job \<Rightarrow> task \<Rightarrow> outcome" where
  "call_job j t =
     (case args t of
        None \<Rightarrow> Raises (TypeError ''argument after * must be an iterable'')
      | Some a \<Rightarrow>
          (case kwargs t of
             None \<Rightarrow> Raises (TypeError ''argument after ** must be a mapping'')
           | Some k \<Rightarrow> body j a k))"

text \<open>
  The \<open>try\<close> statement of \<open>_execute_task\<close> with its two handlers. It results in the
  values the rest of the function reads: whether \<open>consumer\<close> is set, \<open>status\<close>,
  \<open>result\<close> and \<open>time_ended\<close>.
\<close>

definition execute_try ::
  "states \<Rightarrow> task \<Rightarrow> datetime \<Rightarrow> backend
     \<Rightarrow> (bool \<times> string option \<times> pyval \<times> datetime) \<times> backend" where
  "execute_try st t t_end b =
     (case (case name t of None \<Rightarrow> None | Some n \<Rightarrow> registry b n) of
        None \<Rightarrow>
          ((True, None, maybe_failure (RuntimeError ''Task not in registry''), t_end), b)
      | Some j \<Rightarrow>
          (case status_code st t of
             Inl x \<Rightarrow> ((True, None, maybe_failure x, t_end), b)
           | Inr code \<Rightarrow>
               (case PRECEDENCE_MAPPING st STARTED of
                  None \<Rightarrow> ((True, None, maybe_failure (KeyError STARTED), t_end), b)
                | Some started \<Rightarrow>
                    if code > started then
                      (if expiry t \<noteq> None \<and> t_end > the (expiry t)
                       then ((True, Some REVOKED, PNone, t_end),
                             emit (LoggerDebug ''timed-out'') b)
                       else
                         (let b1 = emit (LoggerDebug ''starting task'') b;
                              (r, b2) = save_task (id_task t)
                                          [(''status'', PStr STARTED),
                                           (''time_started'', PDateTime t_end)] b1;
                              b3 = emit (OnStartTask (id_task t)) b2;
                              b4 = (case (args t, kwargs t) of
                                      (Some a, Some k) \<Rightarrow>
                                        emit (CallJob (id_task t) a k) b3
                                    | _ \<Rightarrow> b3)
                          in case call_job j t of
                               Returns v \<Rightarrow>
                                 (let (t2, b5) = datetime_now b4
                                  in ((True, None, v, t2), b5))
                             | Raises TaskTimeout \<Rightarrow>
                                 ((True, Some REVOKED, PNone, t_end),
                                  emit (LoggerDebug ''timed-out'') b4)
                             | Raises e \<Rightarrow>
                                 ((True, None, maybe_failure e, t_end), b4)))
                    else ((False, None, PNone, t_end), b))))"

text \<open>\<open>TaskBackend._execute_task\<close>; it results in the task id.\<close>

definition execute_task :: "states \<Rightarrow> task \<Rightarrow> backend \<Rightarrow> string \<times> backend" where
  "execute_task st t b =
     (let task_id = id_task t;
          (t0, b0) = datetime_now b;
          ((consumer, status0, result0, t_end), b1) = execute_try st t t0 b0;
          (status1, result1, b2) =
             (if is_failure result0
              then (Some FAILURE, PStr (str_failure result0),
                    emit (FailureLog (str_failure result0)) b1)
              else if status0 = None \<or> status0 = Some []
              then (Some SUCCESS, result0, b1)
              else (status0, result0, b1));
          b3 = (if consumer
                then (let (r, b') = save_task task_id
                                      [(''time_ended'', PDateTime t_end),
                                       (''status'', py_str status1),
                                       (''result'', result1)] b2
                      in emit (OnFinishTask task_id) (emit (LoggerDebug ''finished task'') b'))
                else b2)
      in (task_id, emit (PostDoneTask task_id) b3))"

section \<open>The periodic scheduler\<close>

text \<open>
  \<open>remaining\<close> and \<open>timedelta_seconds\<close> come from \<open>pulsar.utils.timeutils\<close>, which is
  not among the sources: they are parameters of the model. \<open>remaining\<close> takes the
  start, the cadence and the optional \<open>now\<close>; \<open>timedelta_seconds\<close> gives a number of
  seconds.
\<close>

record timeutils =
  remaining :: "datetime \<Rightarrow> timedelta \<Rightarrow> datetime option \<Rightarrow> timedelta"
  timedelta_seconds :: "timedelta \<Rightarrow> int"

text \<open>\<open>int(a / b)\<close> for a nonzero \<open>b\<close>: the quotient cut towards zero.\<close>

definition py_int_div :: "int \<Rightarrow> int \<Rightarrow> int" where
  "py_int_div a b = sgn a * sgn b * (\<bar>a\<bar> div \<bar>b\<bar>)"

text \<open>
  The two \<open>while\<close> loops of \<open>scheduled_last_run_at\<close>; neither ends for a cadence that
  moves the anchor the wrong way.
\<close>

partial_function (option) anchor_forward ::
  "datetime \<Rightarrow> datetime \<Rightarrow> timedelta \<Rightarrow> datetime option" where
  "anchor_forward a lra every =
     (if a \<le> lra then anchor_forward (a + every) lra every else Some a)"

partial_function (option) anchor_back ::
  "datetime \<Rightarrow> datetime \<Rightarrow> timedelta \<Rightarrow> datetime option" where
  "anchor_back a lra every =
     (if a > lra then anchor_back (a - every) lra every else Some a)"

text \<open>
  \<open>SchedulerEntry.scheduled_last_run_at\<close>: the value of the property and the entry,
  whose schedule may have a new anchor. \<open>None\<close> is a run that does not end.
\<close>

definition scheduled_last_run_at ::
  "timeutils \<Rightarrow> scheduler_entry \<Rightarrow> (exn + datetime \<times> scheduler_entry) option" where
  "scheduled_last_run_at tu e =
     (case anchor (entry_schedule e) of
        None \<Rightarrow> Some (Inr (last_run_at e, e))
      | Some a \<Rightarrow>
          (let every = run_every (entry_schedule e);
               d = timedelta_seconds tu every
           in if d = 0 then Some (Inl ZeroDivisionError)
              else
                (let times = py_int_div (timedelta_seconds tu (last_run_at e - a)) d
                 in if times \<noteq> 0
                    then (case anchor_forward (a + times * every) (last_run_at e) every of
                            None \<Rightarrow> None
                          | Some a1 \<Rightarrow>
                              (case anchor_back a1 (last_run_at e) every of
                                 None \<Rightarrow> None
                               | Some a2 \<Rightarrow>
                                   Some (Inr (a2,
                                     e\<lparr>entry_schedule :=
                                         (entry_schedule e)\<lparr>anchor := Some a2\<rparr>\<rparr>))))
                    else Some (Inr (a, e)))))"

text \<open>\<open>Schedule.is_due\<close>.\<close>

definition schedule_is_due ::
  "timeutils \<Rightarrow> schedule \<Rightarrow> datetime \<Rightarrow> datetime option \<Rightarrow> bool \<times> int" where
  "schedule_is_due tu sch lra now =
     (let rem = timedelta_seconds tu (remaining tu lra (run_every sch) now)
      in if rem = 0 then (True, timedelta_seconds tu (run_every sch)) else (False, rem))"

text \<open>\<open>SchedulerEntry.is_due\<close>.\<close>

definition entry_is_due ::
  "timeutils \<Rightarrow> scheduler_entry \<Rightarrow> datetime option
     \<Rightarrow> (exn + (bool \<times> int) \<times> scheduler_entry) option" where
  "entry_is_due tu e now =
     (case scheduled_last_run_at tu e of
        None \<Rightarrow> None
      | Some (Inl x) \<Rightarrow> Some (Inl x)
      | Some (Inr (lra, e1)) \<Rightarrow>
          Some (Inr (schedule_is_due tu (entry_schedule e1) lra now, e1)))"

text \<open>
  The body of the \<open>for\<close> loop of \<open>tick\<close>, for the entry stored under key \<open>k\<close>. It
  results in the exception that left the body, if any, and the list
  \<open>remaining_times\<close>.
\<close>

definition tick_entry ::
  "timeutils \<Rightarrow> datetime option \<Rightarrow> string \<Rightarrow> int list \<Rightarrow> backend
     \<Rightarrow> ((exn option \<times> int list) \<times> backend) option" where
  "tick_entry tu now k rts b =
     (case entries b of
        None \<Rightarrow> Some ((None, rts), b)
      | Some es \<Rightarrow>
          (case map_of es k of
             None \<Rightarrow> Some ((None, rts), b)
           | Some e \<Rightarrow>
               (case entry_is_due tu e now of
                  None \<Rightarrow> None
                | Some (Inl x) \<Rightarrow> Some ((Some x, rts), b)
                | Some (Inr ((is_due, next_time_to_run), e1)) \<Rightarrow>
                    (let b1 = b\<lparr>entries := Some (set_entry k e1 es)\<rparr>;
                         b2 = (if is_due
                               then snd (run_job (entry_name e1) None None None [] b1)
                               else b1);
                         rts1 = (if next_time_to_run \<noteq> 0 then rts @ [next_time_to_run]
                                 else rts)
                     in Some ((None, rts1), b2)))))"

fun tick_loop ::
  "timeutils \<Rightarrow> datetime option \<Rightarrow> string list \<Rightarrow> int list \<Rightarrow> backend
     \<Rightarrow> ((exn option \<times> int list) \<times> backend) option" where
  "tick_loop tu now [] rts b = Some ((None, rts), b)"
| "tick_loop tu now (k # ks) rts b =
     (case tick_entry tu now k rts b of
        None \<Rightarrow> None
      | Some ((Some x, rts1), b1) \<Rightarrow> Some ((Some x, rts1), b1)
      | Some ((None, rts1), b1) \<Rightarrow> tick_loop tu now ks rts1 b1)"

text \<open>\<open>TaskBackend.tick\<close>.\<close>

definition tick :: "timeutils \<Rightarrow> datetime option \<Rightarrow> backend \<Rightarrow> backend option" where
  "tick tu now b =
     (if \<not> schedule_periodic b then Some b
      else
        (case (case entries b of
                 None \<Rightarrow> Some ((Some (AttributeError ''values''), []), b)
               | Some es \<Rightarrow> tick_loop tu now (map fst es) [] b) of
           None \<Rightarrow> None
         | Some ((x, rts), b1) \<Rightarrow>
             (let b2 = (case x of
                          None \<Rightarrow> b1
                        | Some ex \<Rightarrow>
                            emit (LoggerException ''Unhandled error in task backend'') b1);
                  (base, b3) = (case now of
                                  Some n \<Rightarrow> (n, b2)
                                | None \<Rightarrow> datetime_now b2)
              in Some (b3\<lparr>next_run :=
                           (if rts \<noteq> [] then base + fold min (tl rts) (hd rts)
                            else base)\<rparr>))))"

section \<open>The worker's polling loop\<close>

text \<open>
  What \<open>may_pool_task\<close> and \<open>_done_task\<close> read and write: \<open>worker.running\<close>, whether
  \<open>worker.thread_pool\<close> is set, the backend's \<open>concurrent_requests\<close> and \<open>backlog\<close>;
  and what they leave behind: the tasks handed to the thread pool by \<open>apply_async\<close>,
  the \<open>_done_task\<close> callbacks posted to the event loop and not yet run, and whether the
  poller waits in the event loop (\<open>Armed\<close>, after \<open>call_soon\<close>) or at its
  \<open>yield self.get_task()\<close> (\<open>Suspended\<close>).
\<close>

datatype poller = Armed | Suspended

record worker =
  running :: bool
  thread_pool :: bool
  concurrent_requests :: int
  backlog :: int
  poller :: poller
  pool_tasks :: "task list"
  posted :: "string list"
  trace :: "event list"

definition call_soon_poller :: "worker \<Rightarrow> worker" where
  "call_soon_poller w = w\<lparr>poller := Armed, trace := trace w @ [CallSoonPoller]\<rparr>"

text \<open>
  The \<open>while worker.running\<close> loop of \<open>may_pool_task\<close>, run from the loop head up to
  the next point at which the generator gives control back: its \<open>yield\<close> of
  \<open>get_task()\<close>, or its end after \<open>call_soon\<close>. \<open>None\<close> is a run that reaches neither.
\<close>

partial_function (option) poll_loop :: "worker \<Rightarrow> worker option" where
  "poll_loop w =
     (if running w then
        (if \<not> thread_pool w
         then poll_loop (w\<lparr>trace := trace w @ [LoggerWarning ''No thread pool, cannot poll tasks.'']\<rparr>)
         else if concurrent_requests w < backlog w
         then Some (w\<lparr>poller := Suspended, trace := trace w @ [GetTask None]\<rparr>)
         else Some (call_soon_poller
                      (w\<lparr>trace := trace w @ [LoggerInfo ''Cannot poll tasks.'']\<rparr>)))
      else Some (call_soon_poller w))"

text \<open>\<open>may_pool_task\<close> as the event loop calls it.\<close>

definition may_pool_task :: "worker \<Rightarrow> worker option" where
  "may_pool_task w = poll_loop w"

text \<open>
  The generator resumed with the result of \<open>get_task()\<close>: a task is counted and handed
  to the thread pool, then the loop goes on.
\<close>

definition resume_poll :: "task option \<Rightarrow> worker \<Rightarrow> worker option" where
  "resume_poll r w =
     (case r of
        None \<Rightarrow> poll_loop w
      | Some t \<Rightarrow>
          poll_loop (w\<lparr>concurrent_requests := concurrent_requests w + 1,
                       pool_tasks := pool_tasks w @ [t],
                       trace := trace w @ [ApplyAsync (id_task t)]\<rparr>))"

text \<open>\<open>_done_task\<close>: \<open>self.local.concurrent_requests -= 1\<close>.\<close>

definition done_task :: "string \<Rightarrow> worker \<Rightarrow> worker" where
  "done_task task_id w = w\<lparr>concurrent_requests := concurrent_requests w - 1\<rparr>"

text \<open>
  \<open>TaskBackend.start\<close>: the worker creates its thread pool and the poller is put in the
  event loop; \<open>concurrent_requests\<close> starts at 0.
\<close>

definition start :: "bool \<Rightarrow> bool \<Rightarrow> int \<Rightarrow> worker" where
  "start r tp bl = \<lparr> running = r, thread_pool = tp, concurrent_requests = 0, backlog = bl,
                      poller = Armed, pool_tasks = [], posted = [], trace = [] \<rparr>"

text \<open>
  One turn of the worker's event loop: the poller runs from the event loop or is
  resumed with the result of \<open>get_task()\<close>, whatever that is; a task in the
  thread pool finishes and \<open>_execute_task\<close> posts \<open>_done_task\<close>; a posted \<open>_done_task\<close>
  runs; the worker stops running.
\<close>

inductive step :: "worker \<Rightarrow> worker \<Rightarrow> bool" where
  poll: "poller w = Armed \<Longrightarrow> may_pool_task w = Some w' \<Longrightarrow> step w w'"
| resume: "poller w = Suspended \<Longrightarrow> resume_poll r w = Some w' \<Longrightarrow> step w w'"
| finish: "pool_tasks w = ts @ t # ts' \<Longrightarrow>
           step w (w\<lparr>pool_tasks := ts @ ts', posted := posted w @ [id_task t]\<rparr>)"
| done_cb: "posted w = i # is \<Longrightarrow> step w ((done_task i w)\<lparr>posted := is\<rparr>)"
| stop: "step w (w\<lparr>running := False\<rparr>)"

inductive reachable :: "bool \<Rightarrow> bool \<Rightarrow> int \<Rightarrow> worker \<Rightarrow> bool" where
  init: "reachable r tp bl (start r tp bl)"
| next_turn: "reachable r tp bl w \<Longrightarrow> step w w' \<Longrightarrow> reachable r tp bl w'"

code_pred step .

code_pred reachable .

text \<open>The bound on the counter, with what holds while the poller is at its \<open>yield\<close>.\<close>

definition backlog_inv :: "worker \<Rightarrow> bool" where
  "backlog_inv w \<longleftrightarrow> concurrent_requests w \<le> backlog w
      \<and> (poller w = Suspended \<longrightarrow> concurrent_requests w < backlog w)"

subsection \<open>Reading the trace\<close>

text \<open>The calls made between two states of the backend, oldest first.\<close>

definition new_events :: "backend \<Rightarrow> backend \<Rightarrow> event list" where
  "new_events b b' = drop (length (log b)) (log b')"

definition is_call_job :: "event \<Rightarrow> bool" where
  "is_call_job e = (case e of CallJob i a k \<Rightarrow> True | _ \<Rightarrow> False)"

definition is_save_task :: "event \<Rightarrow> bool" where
  "is_save_task e = (case e of SaveTask i kw \<Rightarrow> True | _ \<Rightarrow> False)"

definition saves_status :: "string \<Rightarrow> event \<Rightarrow> bool" where
  "saves_status s e =
     (case e of SaveTask i kw \<Rightarrow> map_of kw ''status'' = Some (PStr s) | _ \<Rightarrow> False)"

definition is_str :: "pyval \<Rightarrow> bool" where
  "is_str v = (case v of PStr s \<Rightarrow> True | _ \<Rightarrow> False)"

text \<open>
  The reading of the clock that \<open>create_task\<close> takes as \<open>time_executed\<close>: the next
  one, or the one after it when the job has a scheduler entry, whose \<open>next\<close> reads the
  clock first.
\<close>

definition created_at :: "job \<Rightarrow> backend \<Rightarrow> datetime" where
  "created_at j b =
     (case entries b of
        None \<Rightarrow> clock b (clock_reads b)
      | Some es \<Rightarrow>
          (case map_of es (job_name j) of
             None \<Rightarrow> clock b (clock_reads b)
           | Some e \<Rightarrow> clock b (Suc (clock_reads b))))"

text \<open>The attribute dictionary of a task without its \<open>id\<close> entry.\<close>

definition record_fields :: "task \<Rightarrow> kwargs_t" where
  "record_fields t =
     [(''name'', py_str (name t)),
      (''time_executed'', py_datetime (time_executed t)),
      (''from_task'', py_str (from_task t)),
      (''time_started'', py_datetime (time_started t)),
      (''time_ended'', py_datetime (time_ended t)),
      (''expiry'', py_datetime (expiry t)),
      (''args'', py_tuple (args t)),
      (''kwargs'', py_dict (kwargs t)),
      (''status'', status t),
      (''result'', result t),
      (''params'', PDict (params t))]"

section \<open>Example inputs\<close>

definition ex_states :: states where
  "ex_states = \<lparr> PRECEDENCE_MAPPING =
        map_of [(SUCCESS, 1), (FAILURE, 2), (UNKNOWN, 3), (REVOKED, 4),
                (STARTED, 5), (QUEUED, 6), (RETRY, 7), (PENDING, 8)],
      UNKNOWN_STATE = 3 \<rparr>"

definition ex_job :: "outcome \<Rightarrow> job" where
  "ex_job out = \<lparr> job_name = ''x'', timeout = None,
                   make_task_id = (\<lambda>a k. ''H''), body = (\<lambda>a k. out) \<rparr>"

definition ex_task :: "string \<Rightarrow> task" where
  "ex_task s = (Task ''H'')\<lparr> name := Some ''x'', time_executed := Some 10,
                   args := Some [PInt 1, PInt 2], kwargs := Some [],
                   status := PStr s \<rparr>"

definition ex_backend :: "outcome \<Rightarrow> (string \<rightharpoonup> task) \<Rightarrow> backend" where
  "ex_backend out tasks =
     \<lparr> registry = [''x'' \<mapsto> ex_job out], schedule_periodic = False, entries = None,
       next_run = 0, store = tasks, queue = [], log = [],
       clock = (\<lambda>n. 100 + int n), clock_reads = 0,
       uuids = (\<lambda>n. ''fresh''), uuids_made = 0 \<rparr>"

definition ex_orphan :: "string \<Rightarrow> task" where
  "ex_orphan s = (ex_task s)\<lparr> name := Some ''y'' \<rparr>"

definition ex_expired :: "task \<Rightarrow> task" where
  "ex_expired t = t\<lparr> expiry := Some 50 \<rparr>"

definition ex_timeutils :: timeutils where
  "ex_timeutils = \<lparr> remaining = (\<lambda>start ends_in now.
                        start + ends_in - (case now of None \<Rightarrow> 0 | Some n \<Rightarrow> n)),
                     timedelta_seconds = (\<lambda>d. max d 0) \<rparr>"

definition ex_entry :: scheduler_entry where
  "ex_entry = \<lparr> entry_name = ''x'',
                 entry_schedule = \<lparr> run_every = 60, anchor = None \<rparr>,
                 last_run_at = 0, total_run_count = 0 \<rparr>"

definition ex_periodic :: "(string \<rightharpoonup> task) \<Rightarrow> backend" where
  "ex_periodic tasks =
     (ex_backend (Returns (PInt 42)) tasks)
       \<lparr> schedule_periodic := True, entries := Some [(''x'', ex_entry)] \<rparr>"

definition ex_worker :: worker where
  "ex_worker = start True False 2"

definition ex_busy :: worker where
  "ex_busy = \<lparr> running = True, thread_pool = True, concurrent_requests = 2, backlog = 2,
       poller = Armed, pool_tasks = [ex_task PENDING, ex_task PENDING], posted = [],
       trace = [GetTask None, ApplyAsync ''H'', GetTask None, ApplyAsync ''H'',
                LoggerInfo ''Cannot poll tasks.'', CallSoonPoller] \<rparr>"

section \<open>Properties of the Task object\<close>

lemma ex_states_wf: "states_wf ex_states"
  by (auto simp: states_wf_def ex_states_def ALL_STATES_def PENDING_def QUEUED_def
      RETRY_def STARTED_def REVOKED_def UNKNOWN_def FAILURE_def SUCCESS_def dom_def)

lemma log_advance_entry: "log (advance_entry j b) = log b"
  by (simp add: advance_entry_def entry_next_def datetime_now_def
      split: option.splits prod.splits)

lemmas state_defs = PENDING_def QUEUED_def RETRY_def STARTED_def REVOKED_def UNKNOWN_def
  FAILURE_def SUCCESS_def ALL_STATES_def READY_STATES_def

lemmas ex_defs = ex_states_def ex_job_def ex_task_def ex_backend_def ex_orphan_def
  ex_expired_def Task_def ex_timeutils_def ex_entry_def ex_periodic_def

text \<open>
  C10 (as amended). For every task whose status is a value that can be hashed,
  \<open>status_code\<close> returns: for a status among the eight status strings the rank the
  precedence table gives that status, and for every other such status, \<open>None\<close>
  included, the rank of \<open>UNKNOWN\<close>. For a status that cannot be hashed, a list or a
  dict, it raises \<open>TypeError\<close>.
\<close>

theorem status_code_cases:
  assumes "states_wf st"
  shows "status_code st t =
     (if hashable (status t)
      then Inr (case status t of
                  PStr s \<Rightarrow> if s \<in> set ALL_STATES then the (PRECEDENCE_MAPPING st s)
                            else the (PRECEDENCE_MAPPING st UNKNOWN)
                | _ \<Rightarrow> the (PRECEDENCE_MAPPING st UNKNOWN))
      else Inl (TypeError ''unhashable type''))"
proof -
  from assms have d: "dom (PRECEDENCE_MAPPING st) = set ALL_STATES"
    and u: "PRECEDENCE_MAPPING st UNKNOWN = Some (UNKNOWN_STATE st)"
    by (simp_all add: states_wf_def)
  show ?thesis
  proof (cases "status t")
    case (PStr s)
    show ?thesis
    proof (cases "PRECEDENCE_MAPPING st s")
      case None
      then have "s \<notin> dom (PRECEDENCE_MAPPING st)" by (simp add: domIff)
      then have "s \<notin> set ALL_STATES" using d by simp
      with None PStr u show ?thesis by (simp add: status_code_def)
    next
      case (Some n)
      then have "s \<in> dom (PRECEDENCE_MAPPING st)" by (simp add: domIff)
      then have "s \<in> set ALL_STATES" using d by simp
      with Some PStr show ?thesis by (simp add: status_code_def)
    qed
  qed (simp_all add: status_code_def u)
qed

text \<open>
  The claim as stated, that \<open>status_code\<close> never fails, does not hold: the constructor
  stores a list given as status, and the lookup then raises \<open>TypeError\<close>.
\<close>

theorem status_code_cases_counterexample:
  "status ((Task ''a'')\<lparr>status := PList []\<rparr>) = PList []
   \<and> status_code ex_states ((Task ''a'')\<lparr>status := PList []\<rparr>)
     = Inl (TypeError ''unhashable type'')"
  by (simp add: status_code_def)

theorem status_code_cases_witness:
  "states_wf ex_states
   \<and> status_code ex_states (ex_task PENDING) = Inr 8
   \<and> status_code ex_states (ex_task ''paused'') = Inr 3
   \<and> status_code ex_states (Task ''a'') = Inr 3
   \<and> status_code ex_states ((Task ''a'')\<lparr>status := PInt 7\<rparr>) = Inr 3
   \<and> status_code ex_states ((Task ''a'')\<lparr>status := PDict []\<rparr>)
     = Inl (TypeError ''unhashable type'')"
proof -
  have wf: "states_wf ex_states" by (rule ex_states_wf)
  show ?thesis
    using wf status_code_cases [OF wf, of "ex_task PENDING"]
      status_code_cases [OF wf, of "ex_task ''paused''"]
      status_code_cases [OF wf, of "Task ''a''"]
      status_code_cases [OF wf, of "(Task ''a'')\<lparr>status := PInt 7\<rparr>"]
      status_code_cases [OF wf, of "(Task ''a'')\<lparr>status := PDict []\<rparr>"]
    by (simp add: ex_states_def ex_task_def Task_def ALL_STATES_def PENDING_def QUEUED_def
        RETRY_def STARTED_def REVOKED_def UNKNOWN_def FAILURE_def SUCCESS_def)
qed

text \<open>
  C9. \<open>tojson\<close> is documented as giving a dictionary that can be serialised as JSON,
  but it gives the attribute dictionary as it is: for a task with \<open>time_executed\<close> set
  and \<open>time_started\<close> unset, the value under \<open>time_executed\<close> is the datetime itself and
  the value under \<open>time_started\<close> is \<open>None\<close>; neither is a string.
\<close>

theorem tojson_raw_datetime:
  "map_of (tojson (ex_task SUCCESS)) ''time_executed'' = Some (PDateTime 10)
   \<and> \<not> is_str (PDateTime 10)
   \<and> map_of (tojson (ex_task SUCCESS)) ''time_started'' = Some PNone
   \<and> \<not> is_str PNone
   \<and> map fst (tojson (ex_task SUCCESS)) =
       [''id'', ''name'', ''time_executed'', ''from_task'', ''time_started'', ''time_ended'',
        ''expiry'', ''args'', ''kwargs'', ''status'', ''result'', ''params'']"
  by (simp add: tojson_def is_str_def py_datetime_def ex_defs)

section \<open>Creating tasks: deduplication\<close>

text \<open>
  C1. For a registered job name, when \<open>get_task\<close> finds under the computed id a task
  that is not done, \<open>create_task\<close> results in \<open>None\<close> and \<open>_run_job\<close> in \<open>None\<close>;
  the only calls made are the lookup and the debug message, so there is no \<open>save_task\<close>
  and no \<open>put_task\<close>; store and queue are as before and the store still holds the task
  found under that id.
\<close>

theorem create_task_live_duplicate:
  assumes "registry b jobname = Some j"
    and "task_id = create_task_id j (case targs of None \<Rightarrow> [] | Some a \<Rightarrow> a)
                     (case tkwargs of None \<Rightarrow> [] | Some k \<Rightarrow> k)"
    and "fst (get_task task_id b) = Some t"
    and "task_done t = Inr False"
  shows "create_task jobname targs tkwargs expiry_a meta b =
           (Inr None, b\<lparr>log := log b @ [GetTask (Some task_id),
                                         LoggerDebug ''already requested, abort'']\<rparr>)
       \<and> run_job_internal jobname targs tkwargs expiry_a meta b =
           (Inr None, b\<lparr>log := log b @ [GetTask (Some task_id),
                                         LoggerDebug ''already requested, abort'']\<rparr>)
       \<and> store (snd (run_job_internal jobname targs tkwargs expiry_a meta b)) = store b
       \<and> store (snd (run_job_internal jobname targs tkwargs expiry_a meta b)) task_id = Some t
       \<and> queue (snd (run_job_internal jobname targs tkwargs expiry_a meta b)) = queue b"
proof -
  have c: "create_task jobname targs tkwargs expiry_a meta b =
           (Inr None, b\<lparr>log := log b @ [GetTask (Some task_id),
                                         LoggerDebug ''already requested, abort'']\<rparr>)"
    using assms by (simp add: create_task_def get_task_def emit_def Let_def)
  then have r: "run_job_internal jobname targs tkwargs expiry_a meta b =
           (Inr None, b\<lparr>log := log b @ [GetTask (Some task_id),
                                         LoggerDebug ''already requested, abort'']\<rparr>)"
    by (simp add: run_job_internal_def)
  from assms(3) have "store b task_id = Some t" by (simp add: get_task_def)
  with c r show ?thesis by simp
qed


theorem create_task_live_duplicate_witness:
  "registry (ex_backend (Returns (PInt 42)) [''H'' \<mapsto> ex_task PENDING]) ''x''
     = Some (ex_job (Returns (PInt 42)))
   \<and> fst (get_task ''H'' (ex_backend (Returns (PInt 42)) [''H'' \<mapsto> ex_task PENDING]))
     = Some (ex_task PENDING)
   \<and> task_done (ex_task PENDING) = Inr False
   \<and> fst (run_job_internal ''x'' (Some [PInt 1, PInt 2]) None None []
            (ex_backend (Returns (PInt 42)) [''H'' \<mapsto> ex_task PENDING])) = Inr None
   \<and> log (snd (run_job_internal ''x'' (Some [PInt 1, PInt 2]) None None []
            (ex_backend (Returns (PInt 42)) [''H'' \<mapsto> ex_task PENDING])))
     = [GetTask (Some ''H''), LoggerDebug ''already requested, abort'']
   \<and> store (snd (run_job_internal ''x'' (Some [PInt 1, PInt 2]) None None []
            (ex_backend (Returns (PInt 42)) [''H'' \<mapsto> ex_task PENDING]))) ''H''
     = Some (ex_task PENDING)"
proof -
  let ?b = "ex_backend (Returns (PInt 42)) [''H'' \<mapsto> ex_task PENDING]"
  have h1: "registry ?b ''x'' = Some (ex_job (Returns (PInt 42)))"
    by (simp add: ex_backend_def)
  have h2: "''H'' = create_task_id (ex_job (Returns (PInt 42)))
              (case Some [PInt 1, PInt 2] of None \<Rightarrow> [] | Some a \<Rightarrow> a)
              (case None of None \<Rightarrow> [] | Some k \<Rightarrow> k)"
    by (simp add: create_task_id_def ex_job_def)
  have h3: "fst (get_task ''H'' ?b) = Some (ex_task PENDING)"
    by (simp add: get_task_def ex_backend_def)
  have h4: "task_done (ex_task PENDING) = Inr False"
    by (simp add: task_done_def ex_task_def Task_def state_defs)
  show ?thesis
    using h1 h3 h4 create_task_live_duplicate [OF h1 h2 h3 h4, of None "[]"]
    by (simp add: ex_backend_def)
qed


subsection \<open>The effect of the storage calls\<close>

lemma fold_setattr_id: "id_task (fold setattr_task kw x) = id_task x"
  by (induction kw arbitrary: x) (simp_all add: setattr_task_def Let_def)

lemma fold_setattr_keeps:
  "\<not> repeated_keyword kw \<Longrightarrow>
     status (fold setattr_task kw x) = status x \<and> name (fold setattr_task kw x) = name x
     \<and> time_executed (fold setattr_task kw x) = time_executed x
     \<and> expiry (fold setattr_task kw x) = expiry x
     \<and> args (fold setattr_task kw x) = args x \<and> kwargs (fold setattr_task kw x) = kwargs x"
proof (induction kw arbitrary: x)
  case Nil
  then show ?case by simp
next
  case (Cons p kw)
  from Cons.prems have r: "\<not> repeated_keyword kw"
    and k: "fst p \<notin> set [''name'', ''time_executed'', ''expiry'', ''args'', ''kwargs'',
                           ''status'', ''task_id'', ''self'']"
    by (auto simp: repeated_keyword_def)
  from k have "status (setattr_task p x) = status x \<and> name (setattr_task p x) = name x
     \<and> time_executed (setattr_task p x) = time_executed x
     \<and> expiry (setattr_task p x) = expiry x
     \<and> args (setattr_task p x) = args x \<and> kwargs (setattr_task p x) = kwargs x"
    by (simp add: setattr_task_def Let_def)
  with Cons.IH [OF r, of "setattr_task p x"] show ?case by simp
qed

lemma fold_setattr_record_fields:
  "fold setattr_task (record_fields t) x = t\<lparr>id_task := id_task x\<rparr>"
  by (simp add: record_fields_def setattr_task_def Let_def as_str_def as_datetime_def
      as_tuple_def as_dict_def py_str_def py_datetime_def py_tuple_def py_dict_def
      split: option.splits)

lemma handle_task_done_state:
  "handle_task_done t b =
     (None,
      b\<lparr>uuids_made := Suc (uuids_made b),
        store := (\<lambda>k. if k = uuids b (uuids_made b)
                       then Some (t\<lparr>id_task :=
                              id_task (case (if uuids b (uuids_made b) = id_task t then None
                                             else store b (uuids b (uuids_made b))) of
                                         None \<Rightarrow> Task (uuids b (uuids_made b))
                                       | Some old \<Rightarrow> old)\<rparr>)
                       else if k = id_task t then None else store b k),
        log := log b @ [DeleteTasks [id_task t],
                        SaveTask (uuids b (uuids_made b)) (record_fields t)]\<rparr>)"
proof -
  have d: "filter (\<lambda>p. fst p \<noteq> ''id'') (tojson t) = record_fields t"
    by (simp add: tojson_def record_fields_def)
  show ?thesis
    unfolding handle_task_done_def fresh_task_id_def delete_tasks_def save_task_def emit_def
      Let_def d fold_setattr_record_fields
    by (auto simp: fun_eq_iff intro!: backend.equality)
qed

lemma advance_entry_reads:
  "store (advance_entry j b) = store b" "log (advance_entry j b) = log b"
  "clock (advance_entry j b) = clock b"
  "clock (advance_entry j b) (clock_reads (advance_entry j b)) = created_at j b"
  by (simp_all add: advance_entry_def entry_next_def datetime_now_def created_at_def
      split: option.splits)

lemma created_at_cong:
  "entries b' = entries b \<Longrightarrow> clock b' = clock b \<Longrightarrow> clock_reads b' = clock_reads b
     \<Longrightarrow> created_at j b' = created_at j b"
  by (simp add: created_at_def cong: option.case_cong)

lemma save_task_parts:
  "fst (save_task i kw b) = i"
  "store (snd (save_task i kw b)) =
     (store b)(i \<mapsto> fold setattr_task kw (case store b i of None \<Rightarrow> Task i | Some t \<Rightarrow> t))"
  "log (snd (save_task i kw b)) = log b @ [SaveTask i kw]"
  by (simp_all add: save_task_def Let_def emit_def)

lemma emit_parts: "store (emit e b) = store b" "log (emit e b) = log b @ [e]"
  by (simp_all add: emit_def)

lemma datetime_now_parts:
  "store (snd (datetime_now b)) = store b" "log (snd (datetime_now b)) = log b"
  by (simp_all add: datetime_now_def)


text \<open>
  C2 (as amended). For a registered job name, when \<open>get_task\<close> finds under the
  computed id the task of that id and it is done, \<open>handle_task_done\<close> results in
  \<open>None\<close> and makes two calls, in this order: \<open>delete_tasks\<close> on the id of the task
  found, then \<open>save_task\<close> under a newly generated id with every attribute of the task
  but \<open>id\<close>, \<open>status\<close> and \<open>result\<close> among them. When the new id differs from the
  computed one, the meta parameters repeat no keyword of the \<open>save_task\<close> call and the
  expiry is a datetime that exists, \<open>create_task\<close> goes on to \<open>save_task\<close> under the
  computed id with status \<open>PENDING\<close> and results in that id; afterwards the store
  holds the old record, equal in every field but \<open>id\<close>, under the new id, a \<open>PENDING\<close>
  task under the computed id, and every other task as before.
\<close>

theorem create_task_done_duplicate:
  assumes "registry b jobname = Some j"
    and "task_id = create_task_id j (case targs of None \<Rightarrow> [] | Some a \<Rightarrow> a)
                     (case tkwargs of None \<Rightarrow> [] | Some k \<Rightarrow> k)"
    and "fst (get_task task_id b) = Some t"
    and "task_done t = Inr True"
    and "id_task t = task_id"
    and "new_id = uuids b (uuids_made b)" and "new_id \<noteq> task_id"
    and "\<not> repeated_keyword meta"
    and "compute_expiry expiry_a j (created_at j b) = Inr exp"
  shows "fst (handle_task_done t b0) = None
       \<and> new_events b0 (snd (handle_task_done t b0)) =
           [DeleteTasks [id_task t],
            SaveTask (uuids b0 (uuids_made b0)) (record_fields t)]
       \<and> fst (create_task jobname targs tkwargs expiry_a meta b) = Inr (Some task_id)
       \<and> new_events b (snd (create_task jobname targs tkwargs expiry_a meta b)) =
           [GetTask (Some task_id),
            DeleteTasks [task_id],
            SaveTask new_id (record_fields t),
            LoggerDebug ''queue new task'',
            SaveTask task_id
              ([(''name'', PStr (job_name j)),
                (''time_executed'', PDateTime (created_at j b)),
                (''expiry'', py_datetime exp),
                (''args'', PTuple (case targs of None \<Rightarrow> [] | Some a \<Rightarrow> a)),
                (''kwargs'', PDict (case tkwargs of None \<Rightarrow> [] | Some k \<Rightarrow> k)),
                (''status'', PStr PENDING)] @ meta)]
       \<and> (\<exists>r. store (snd (create_task jobname targs tkwargs expiry_a meta b)) new_id = Some r
              \<and> r\<lparr>id_task := new_id\<rparr> = t\<lparr>id_task := new_id\<rparr>)
       \<and> (\<exists>p. store (snd (create_task jobname targs tkwargs expiry_a meta b)) task_id = Some p
              \<and> id_task p = task_id \<and> status p = PStr PENDING
              \<and> name p = Some (job_name j) \<and> time_executed p = Some (created_at j b)
              \<and> expiry p = exp)
       \<and> (\<forall>k. k \<noteq> new_id \<and> k \<noteq> task_id \<longrightarrow>
              store (snd (create_task jobname targs tkwargs expiry_a meta b)) k = store b k)"
proof -
  let ?b1 = "emit (GetTask (Some task_id)) b"
  let ?b2 = "snd (handle_task_done t ?b1)"
  let ?b3 = "advance_entry j ?b2"
  let ?b5 = "emit (LoggerDebug ''queue new task'') (snd (datetime_now ?b3))"
  let ?kw = "[(''name'', PStr (job_name j)),
                (''time_executed'', PDateTime (created_at j b)),
                (''expiry'', py_datetime exp),
                (''args'', PTuple (case targs of None \<Rightarrow> [] | Some a \<Rightarrow> a)),
                (''kwargs'', PDict (case tkwargs of None \<Rightarrow> [] | Some k \<Rightarrow> k)),
                (''status'', PStr PENDING)] @ meta"
  have found: "store b task_id = Some t" using assms(3) by (simp add: get_task_def)
  have b2: "fst (handle_task_done t ?b1) = None"
    by (simp add: handle_task_done_state)
  have c2: "created_at j ?b2 = created_at j b"
    by (rule created_at_cong) (simp_all add: handle_task_done_state emit_def)
  have t3: "fst (datetime_now ?b3) = created_at j b"
    using advance_entry_reads(4) [of j ?b2] c2 by (simp add: datetime_now_def)
  have ct: "create_task jobname targs tkwargs expiry_a meta b =
              (Inr (Some task_id), snd (save_task task_id ?kw ?b5))"
    using assms(1,2,4,8,9) found b2 t3
    by (simp add: create_task_def get_task_def Let_def case_prod_beta save_task_parts)
  have st2: "store ?b2 = (\<lambda>k. if k = new_id
                       then Some (t\<lparr>id_task :=
                              id_task (case store b new_id of
                                         None \<Rightarrow> Task new_id
                                       | Some old \<Rightarrow> old)\<rparr>)
                       else if k = task_id then None else store b k)"
    using assms(5,6,7)
    by (simp add: handle_task_done_state emit_def fun_eq_iff cong: option.case_cong)
  have lg2: "log ?b2 = log b @ [GetTask (Some task_id), DeleteTasks [task_id],
                                SaveTask new_id (record_fields t)]"
    using assms(5,6) by (simp add: handle_task_done_state emit_def)
  have st5: "store ?b5 = store ?b2" and lg5: "log ?b5 = log ?b2 @ [LoggerDebug ''queue new task'']"
    by (simp_all add: emit_parts datetime_now_parts advance_entry_reads)
  let ?p = "fold setattr_task ?kw (Task task_id)"
  have stF: "store (snd (create_task jobname targs tkwargs expiry_a meta b))
               = (store ?b2)(task_id \<mapsto> ?p)"
    unfolding ct using assms(7) by (simp add: save_task_parts st5 st2)
  have p: "id_task ?p = task_id \<and> status ?p = PStr PENDING
              \<and> name ?p = Some (job_name j) \<and> time_executed ?p = Some (created_at j b)
              \<and> expiry ?p = exp"
    using fold_setattr_keeps [OF assms(8), of "fold setattr_task
              [(''name'', PStr (job_name j)),
                (''time_executed'', PDateTime (created_at j b)),
                (''expiry'', py_datetime exp),
                (''args'', PTuple (case targs of None \<Rightarrow> [] | Some a \<Rightarrow> a)),
                (''kwargs'', PDict (case tkwargs of None \<Rightarrow> [] | Some k \<Rightarrow> k)),
                (''status'', PStr PENDING)] (Task task_id)"]
    by (simp add: fold_setattr_id setattr_task_def Let_def Task_def as_str_def
        as_datetime_def py_datetime_def split: option.splits)
  have h: "fst (handle_task_done t b0) = None
       \<and> new_events b0 (snd (handle_task_done t b0)) =
           [DeleteTasks [id_task t],
            SaveTask (uuids b0 (uuids_made b0)) (record_fields t)]"
    by (simp add: handle_task_done_state new_events_def)
  have ev: "new_events b (snd (create_task jobname targs tkwargs expiry_a meta b)) =
           [GetTask (Some task_id), DeleteTasks [task_id], SaveTask new_id (record_fields t),
            LoggerDebug ''queue new task'', SaveTask task_id ?kw]"
    unfolding ct by (simp add: new_events_def save_task_parts lg5 lg2)
  have s1: "\<exists>r. store (snd (create_task jobname targs tkwargs expiry_a meta b)) new_id = Some r
              \<and> r\<lparr>id_task := new_id\<rparr> = t\<lparr>id_task := new_id\<rparr>"
    unfolding stF st2 using assms(7) by simp
  have s2: "\<exists>p. store (snd (create_task jobname targs tkwargs expiry_a meta b)) task_id = Some p
              \<and> id_task p = task_id \<and> status p = PStr PENDING
              \<and> name p = Some (job_name j) \<and> time_executed p = Some (created_at j b)
              \<and> expiry p = exp"
    unfolding stF using p by simp
  have s3: "\<forall>k. k \<noteq> new_id \<and> k \<noteq> task_id \<longrightarrow>
              store (snd (create_task jobname targs tkwargs expiry_a meta b)) k = store b k"
    unfolding stF st2 by simp
  show ?thesis using h ct ev s1 s2 s3 by simp
qed

text \<open>
  The claim as stated, that \<open>create_task\<close> always goes on to save the \<open>PENDING\<close> task,
  does not hold: with a meta parameter named \<open>status\<close> the call of \<open>save_task\<close> raises
  \<open>TypeError\<close> after the old record has been moved, and nothing is stored under the
  computed id.
\<close>

theorem create_task_done_duplicate_counterexample:
  "fst (get_task ''H''
          (ex_backend (Returns (PInt 42)) [''H'' \<mapsto> (ex_task SUCCESS)\<lparr>result := PInt 42\<rparr>]))
     = Some ((ex_task SUCCESS)\<lparr>result := PInt 42\<rparr>)
   \<and> task_done ((ex_task SUCCESS)\<lparr>result := PInt 42\<rparr>) = Inr True
   \<and> fst (create_task ''x'' (Some [PInt 1, PInt 2]) None None [(''status'', PStr ''SUCCESS'')]
            (ex_backend (Returns (PInt 42)) [''H'' \<mapsto> (ex_task SUCCESS)\<lparr>result := PInt 42\<rparr>]))
     = Inl (TypeError ''got multiple values for keyword argument'')
   \<and> new_events
        (ex_backend (Returns (PInt 42)) [''H'' \<mapsto> (ex_task SUCCESS)\<lparr>result := PInt 42\<rparr>])
        (snd (create_task ''x'' (Some [PInt 1, PInt 2]) None None [(''status'', PStr ''SUCCESS'')]
            (ex_backend (Returns (PInt 42)) [''H'' \<mapsto> (ex_task SUCCESS)\<lparr>result := PInt 42\<rparr>])))
     = [GetTask (Some ''H''), DeleteTasks [''H''],
        SaveTask ''fresh''
          [(''name'', PStr ''x''), (''time_executed'', PDateTime 10), (''from_task'', PNone),
           (''time_started'', PNone), (''time_ended'', PNone), (''expiry'', PNone),
           (''args'', PTuple [PInt 1, PInt 2]), (''kwargs'', PDict []),
           (''status'', PStr ''SUCCESS''), (''result'', PInt 42), (''params'', PDict [])],
        LoggerDebug ''queue new task'']
   \<and> store
        (snd (create_task ''x'' (Some [PInt 1, PInt 2]) None None [(''status'', PStr ''SUCCESS'')]
            (ex_backend (Returns (PInt 42)) [''H'' \<mapsto> (ex_task SUCCESS)\<lparr>result := PInt 42\<rparr>])))
        ''H''
     = None"
  by (simp add: create_task_def get_task_def task_done_def handle_task_done_state Let_def
      emit_def new_events_def datetime_now_def advance_entry_def compute_expiry_def
      truthy_timeout_def repeated_keyword_def create_task_id_def record_fields_def
      py_str_def py_datetime_def py_tuple_def py_dict_def ex_backend_def ex_job_def
      ex_task_def Task_def state_defs)

theorem create_task_done_duplicate_witness:
  "registry (ex_backend (Returns (PInt 42)) [''H'' \<mapsto> (ex_task SUCCESS)\<lparr>result := PInt 42\<rparr>]) ''x''
     = Some (ex_job (Returns (PInt 42)))
   \<and> fst (get_task ''H''
            (ex_backend (Returns (PInt 42)) [''H'' \<mapsto> (ex_task SUCCESS)\<lparr>result := PInt 42\<rparr>]))
     = Some ((ex_task SUCCESS)\<lparr>result := PInt 42\<rparr>)
   \<and> task_done ((ex_task SUCCESS)\<lparr>result := PInt 42\<rparr>) = Inr True
   \<and> id_task ((ex_task SUCCESS)\<lparr>result := PInt 42\<rparr>) = ''H''
   \<and> ''fresh'' \<noteq> ''H''
   \<and> \<not> repeated_keyword [(''from_task'', PStr ''p'')]
   \<and> compute_expiry None (ex_job (Returns (PInt 42))) 100 = Inr None
   \<and> fst (create_task ''x'' (Some [PInt 1, PInt 2]) None None [(''from_task'', PStr ''p'')]
            (ex_backend (Returns (PInt 42)) [''H'' \<mapsto> (ex_task SUCCESS)\<lparr>result := PInt 42\<rparr>]))
     = Inr (Some ''H'')
   \<and> new_events
        (ex_backend (Returns (PInt 42)) [''H'' \<mapsto> (ex_task SUCCESS)\<lparr>result := PInt 42\<rparr>])
        (snd (create_task ''x'' (Some [PInt 1, PInt 2]) None None [(''from_task'', PStr ''p'')]
            (ex_backend (Returns (PInt 42)) [''H'' \<mapsto> (ex_task SUCCESS)\<lparr>result := PInt 42\<rparr>])))
     = [GetTask (Some ''H''), DeleteTasks [''H''],
        SaveTask ''fresh''
          [(''name'', PStr ''x''), (''time_executed'', PDateTime 10), (''from_task'', PNone),
           (''time_started'', PNone), (''time_ended'', PNone), (''expiry'', PNone),
           (''args'', PTuple [PInt 1, PInt 2]), (''kwargs'', PDict []),
           (''status'', PStr ''SUCCESS''), (''result'', PInt 42), (''params'', PDict [])],
        LoggerDebug ''queue new task'',
        SaveTask ''H''
          [(''name'', PStr ''x''), (''time_executed'', PDateTime 100), (''expiry'', PNone),
           (''args'', PTuple [PInt 1, PInt 2]), (''kwargs'', PDict []),
           (''status'', PStr ''PENDING''), (''from_task'', PStr ''p'')]]
   \<and> map_option (\<lambda>r. r\<lparr>id_task := ''fresh''\<rparr>)
        (store (snd (create_task ''x'' (Some [PInt 1, PInt 2]) None None
            [(''from_task'', PStr ''p'')]
            (ex_backend (Returns (PInt 42)) [''H'' \<mapsto> (ex_task SUCCESS)\<lparr>result := PInt 42\<rparr>])))
          ''fresh'')
     = Some ((ex_task SUCCESS)\<lparr>result := PInt 42, id_task := ''fresh''\<rparr>)
   \<and> map_option status
        (store (snd (create_task ''x'' (Some [PInt 1, PInt 2]) None None
            [(''from_task'', PStr ''p'')]
            (ex_backend (Returns (PInt 42)) [''H'' \<mapsto> (ex_task SUCCESS)\<lparr>result := PInt 42\<rparr>])))
          ''H'')
     = Some (PStr ''PENDING'')"
proof -
  let ?t = "(ex_task SUCCESS)\<lparr>result := PInt 42\<rparr>"
  let ?b = "ex_backend (Returns (PInt 42)) [''H'' \<mapsto> ?t]"
  let ?j = "ex_job (Returns (PInt 42))"
  have h1: "registry ?b ''x'' = Some ?j"
    by (simp add: ex_backend_def)
  have h2: "''H'' = create_task_id ?j
              (case Some [PInt 1, PInt 2] of None \<Rightarrow> [] | Some a \<Rightarrow> a)
              (case None of None \<Rightarrow> [] | Some k \<Rightarrow> k)"
    by (simp add: create_task_id_def ex_job_def)
  have h3: "fst (get_task ''H'' ?b) = Some ?t"
    by (simp add: get_task_def ex_backend_def)
  have h4: "task_done ?t = Inr True"
    by (simp add: task_done_def ex_task_def Task_def state_defs)
  have h5: "id_task ?t = ''H''" by (simp add: ex_task_def Task_def)
  have h6: "''fresh'' = uuids ?b (uuids_made ?b)" by (simp add: ex_backend_def)
  have h7: "''fresh'' \<noteq> ''H''" by simp
  have h8: "\<not> repeated_keyword [(''from_task'', PStr ''p'')]"
    by (simp add: repeated_keyword_def)
  have c: "created_at ?j ?b = 100" by (simp add: created_at_def ex_backend_def)
  have h9: "compute_expiry None ?j (created_at ?j ?b) = Inr None"
    by (simp add: compute_expiry_def truthy_timeout_def ex_job_def)
  show ?thesis
    using h1 h3 h4 h5 h7 h8 h9 c
      create_task_done_duplicate [OF h1 h2 h3 h4 h5 h6 h7 h8 h9, of ?b]
    by (auto simp: record_fields_def ex_task_def Task_def py_str_def
        py_datetime_def py_tuple_def py_dict_def SUCCESS_def PENDING_def ex_job_def)
qed

section \<open>Executing a task\<close>

lemma started_defined: "states_wf st \<Longrightarrow> \<exists>n. PRECEDENCE_MAPPING st STARTED = Some n"
proof -
  assume "states_wf st"
  then have "STARTED \<in> dom (PRECEDENCE_MAPPING st)"
    by (simp add: states_wf_def ALL_STATES_def)
  then show ?thesis by (simp add: domIff)
qed

lemma execute_task_unregistered:
  assumes "(case name t of None \<Rightarrow> None | Some n \<Rightarrow> registry b n) = None"
  shows "new_events b (snd (execute_task st t b)) =
           [FailureLog ''Task not in registry'',
            SaveTask (id_task t) [(''time_ended'', PDateTime (clock b (clock_reads b))),
                                  (''status'', PStr FAILURE),
                                  (''result'', PStr ''Task not in registry'')],
            LoggerDebug ''finished task'', OnFinishTask (id_task t), PostDoneTask (id_task t)]"
  using assms
  by (cases "name t")
     (simp_all add: new_events_def execute_task_def execute_try_def datetime_now_def emit_def
      is_failure_def maybe_failure_def str_failure_def Let_def save_task_def py_str_def)

lemma execute_task_status_error:
  assumes "name t = Some n" "registry b n = Some j" "status_code st t = Inl x"
  shows "new_events b (snd (execute_task st t b)) =
           [FailureLog (exn_text x),
            SaveTask (id_task t) [(''time_ended'', PDateTime (clock b (clock_reads b))),
                                  (''status'', PStr FAILURE),
                                  (''result'', PStr (exn_text x))],
            LoggerDebug ''finished task'', OnFinishTask (id_task t), PostDoneTask (id_task t)]"
  using assms
  by (simp add: new_events_def execute_task_def execute_try_def datetime_now_def emit_def
      is_failure_def maybe_failure_def str_failure_def Let_def save_task_def py_str_def)

lemma execute_task_skip:
  assumes "PRECEDENCE_MAPPING st STARTED = Some p" "name t = Some n" "registry b n = Some j"
     "status_code st t = Inr c" "\<not> c > p"
  shows "execute_task st t b =
           (id_task t, b\<lparr>clock_reads := Suc (clock_reads b),
                         log := log b @ [PostDoneTask (id_task t)]\<rparr>)"
  using assms
  by (simp add: execute_task_def execute_try_def datetime_now_def emit_def is_failure_def Let_def)

lemma execute_task_expired:
  assumes "PRECEDENCE_MAPPING st STARTED = Some p" "name t = Some n" "registry b n = Some j"
     "status_code st t = Inr c" "c > p" "expiry t = Some e" "clock b (clock_reads b) > e"
  shows "new_events b (snd (execute_task st t b)) =
           [LoggerDebug ''timed-out'',
            SaveTask (id_task t) [(''time_ended'', PDateTime (clock b (clock_reads b))),
                                  (''status'', PStr REVOKED), (''result'', PNone)],
            LoggerDebug ''finished task'', OnFinishTask (id_task t), PostDoneTask (id_task t)]"
  using assms
  by (simp add: new_events_def execute_task_def execute_try_def datetime_now_def emit_def is_failure_def Let_def save_task_def py_str_def REVOKED_def)

lemma execute_task_run:
  assumes "PRECEDENCE_MAPPING st STARTED = Some p" "name t = Some n" "registry b n = Some j"
     "status_code st t = Inr c" "c > p"
     "expiry t = None \<or> \<not> clock b (clock_reads b) > the (expiry t)"
     "args t = Some a" "kwargs t = Some k"
  shows "new_events b (snd (execute_task st t b)) =
           [LoggerDebug ''starting task'',
            SaveTask (id_task t) [(''status'', PStr STARTED), (''time_started'', PDateTime (clock b (clock_reads b)))],
            OnStartTask (id_task t), CallJob (id_task t) a k] @
           (case body j a k of
              Raises TaskTimeout \<Rightarrow> [LoggerDebug ''timed-out'',
                  SaveTask (id_task t) [(''time_ended'', PDateTime (clock b (clock_reads b))),
                                  (''status'', PStr REVOKED), (''result'', PNone)]]
            | Raises e \<Rightarrow> [FailureLog (exn_text e),
                  SaveTask (id_task t) [(''time_ended'', PDateTime (clock b (clock_reads b))),
                                  (''status'', PStr FAILURE), (''result'', PStr (exn_text e))]]
            | Returns v \<Rightarrow> if is_failure v then [FailureLog (str_failure v),
                  SaveTask (id_task t) [(''time_ended'', PDateTime (clock b (Suc (clock_reads b)))),
                                  (''status'', PStr FAILURE), (''result'', PStr (str_failure v))]]
                 else [SaveTask (id_task t) [(''time_ended'', PDateTime (clock b (Suc (clock_reads b)))),
                                  (''status'', PStr SUCCESS), (''result'', v)]]) @
           [LoggerDebug ''finished task'', OnFinishTask (id_task t), PostDoneTask (id_task t)]"
  using assms
  by (auto simp add: new_events_def execute_task_def execute_try_def datetime_now_def emit_def is_failure_def Let_def save_task_def py_str_def REVOKED_def call_job_def maybe_failure_def str_failure_def split: outcome.splits exn.splits)

text \<open>
  C3 (as amended). The job body is called, and \<open>STARTED\<close> is saved, only for a task
  whose \<open>status_code\<close> is strictly greater than the rank of \<open>STARTED\<close>. For a task
  whose job is in the registry and whose \<open>status_code\<close> is not strictly greater, the
  executor makes no \<open>save_task\<close> call at all and its only call is the posting of
  \<open>_done_task\<close> to the event loop.
\<close>

theorem execute_task_guard:
  assumes "states_wf st"
  shows "((\<exists>e \<in> set (new_events b (snd (execute_task st t b))).
             is_call_job e \<or> saves_status STARTED e)
          \<longrightarrow> (\<exists>code. status_code st t = Inr code
                      \<and> code > the (PRECEDENCE_MAPPING st STARTED)))
       \<and> (name t = Some n \<and> registry b n = Some j \<and> status_code st t = Inr c
            \<and> \<not> c > the (PRECEDENCE_MAPPING st STARTED)
          \<longrightarrow> new_events b (snd (execute_task st t b)) = [PostDoneTask (id_task t)]
             \<and> list_all (\<lambda>e. \<not> is_save_task e) (new_events b (snd (execute_task st t b))))"
proof -
  from assms obtain p where p: "PRECEDENCE_MAPPING st STARTED = Some p"
    using started_defined by blast
  have skip: "new_events b (snd (execute_task st t b)) = [PostDoneTask (id_task t)]"
    if "name t = Some n" "registry b n = Some j" "status_code st t = Inr c" "\<not> c > p"
    for n j c
    using execute_task_skip [OF p that] by (simp add: new_events_def)
  have a: "\<exists>code. status_code st t = Inr code \<and> code > p"
    if e: "\<exists>e \<in> set (new_events b (snd (execute_task st t b))).
             is_call_job e \<or> saves_status STARTED e"
  proof (rule ccontr)
    assume n: "\<not> (\<exists>code. status_code st t = Inr code \<and> code > p)"
    show False
    proof (cases "case name t of None \<Rightarrow> None | Some n \<Rightarrow> registry b n")
      case None
      from e show False
        unfolding execute_task_unregistered [OF None]
        by (simp add: is_call_job_def saves_status_def STARTED_def FAILURE_def)
    next
      case (Some j)
      then obtain m where m: "name t = Some m" "registry b m = Some j"
        by (auto split: option.splits)
      show False
      proof (cases "status_code st t")
        case (Inl x)
        from e show False
          unfolding execute_task_status_error [OF m Inl]
          by (simp add: is_call_job_def saves_status_def STARTED_def FAILURE_def)
      next
        case (Inr code)
        with n have np: "\<not> code > p" by simp
        from e show False
          unfolding skip [OF m Inr np]
          by (simp add: is_call_job_def saves_status_def)
      qed
    qed
  qed
  show ?thesis using a skip p by (auto simp: is_save_task_def)
qed

text \<open>
  The claim as stated, for every task that fails the check, does not hold: a task whose
  name is not in the registry is saved with \<open>FAILURE\<close> whatever its status is, here
  \<open>STARTED\<close>.
\<close>

theorem execute_task_guard_counterexample:
  "status_code ex_states (ex_orphan STARTED) = Inr 5
   \<and> \<not> (5::int) > the (PRECEDENCE_MAPPING ex_states STARTED)
   \<and> new_events (ex_backend (Returns (PInt 42)) Map.empty)
        (snd (execute_task ex_states (ex_orphan STARTED)
               (ex_backend (Returns (PInt 42)) Map.empty)))
     = [FailureLog ''Task not in registry'',
        SaveTask ''H'' [(''time_ended'', PDateTime 100), (''status'', PStr ''FAILURE''),
                        (''result'', PStr ''Task not in registry'')],
        LoggerDebug ''finished task'', OnFinishTask ''H'', PostDoneTask ''H'']"
proof -
  have "(case name (ex_orphan STARTED) of None \<Rightarrow> None
         | Some n \<Rightarrow> registry (ex_backend (Returns (PInt 42)) Map.empty) n) = None"
    by (simp add: ex_defs)
  from execute_task_unregistered [OF this, of ex_states] show ?thesis
    by (simp add: ex_defs status_code_def state_defs)
qed

theorem execute_task_guard_witness:
  "states_wf ex_states
   \<and> CallJob ''H'' [PInt 1, PInt 2] [] \<in>
       set (new_events (ex_backend (Returns (PInt 42)) Map.empty)
             (snd (execute_task ex_states (ex_task PENDING)
                    (ex_backend (Returns (PInt 42)) Map.empty))))
   \<and> status_code ex_states (ex_task PENDING) = Inr 8
   \<and> (8::int) > the (PRECEDENCE_MAPPING ex_states STARTED)
   \<and> name (ex_task STARTED) = Some ''x''
   \<and> registry (ex_backend (Returns (PInt 42)) Map.empty) ''x'' = Some (ex_job (Returns (PInt 42)))
   \<and> status_code ex_states (ex_task STARTED) = Inr 5
   \<and> \<not> (5::int) > the (PRECEDENCE_MAPPING ex_states STARTED)
   \<and> new_events (ex_backend (Returns (PInt 42)) Map.empty)
        (snd (execute_task ex_states (ex_task STARTED)
               (ex_backend (Returns (PInt 42)) Map.empty)))
     = [PostDoneTask ''H'']"
proof -
  let ?b = "ex_backend (Returns (PInt 42)) Map.empty"
  have p: "PRECEDENCE_MAPPING ex_states STARTED = Some 5"
    by (simp add: ex_states_def state_defs)
  have c: "status_code ex_states (ex_task PENDING) = Inr 8"
    by (simp add: status_code_def ex_defs state_defs)
  have s: "status_code ex_states (ex_task STARTED) = Inr 5"
    by (simp add: status_code_def ex_defs state_defs)
  have r: "registry ?b ''x'' = Some (ex_job (Returns (PInt 42)))"
    by (simp add: ex_backend_def)
  have n: "name (ex_task PENDING) = Some ''x''" "name (ex_task STARTED) = Some ''x''"
    by (simp_all add: ex_task_def)
  have run: "new_events ?b (snd (execute_task ex_states (ex_task PENDING) ?b)) =
      [LoggerDebug ''starting task'',
       SaveTask ''H'' [(''status'', PStr ''STARTED''), (''time_started'', PDateTime 100)],
       OnStartTask ''H'', CallJob ''H'' [PInt 1, PInt 2] [],
       SaveTask ''H'' [(''time_ended'', PDateTime 101), (''status'', PStr ''SUCCESS''),
                       (''result'', PInt 42)],
       LoggerDebug ''finished task'', OnFinishTask ''H'', PostDoneTask ''H'']"
    using execute_task_run [OF p n(1) r c, of "[PInt 1, PInt 2]" "[]"]
    by (simp add: ex_defs state_defs is_failure_def)
  have i: "id_task (ex_task STARTED) = ''H''"
    by (simp add: ex_defs)
  show ?thesis
    using ex_states_wf p c s r n run i
      execute_task_guard [OF ex_states_wf, of ?b "ex_task PENDING"]
      execute_task_guard [OF ex_states_wf, of ?b "ex_task STARTED" "''x''"
                            "ex_job (Returns (PInt 42))" 5]
    by simp
qed

text \<open>
  C4 (as amended). When \<open>_execute_task\<close> runs a job body: if the body raises
  \<open>TaskTimeout\<close> the task is saved with status \<open>REVOKED\<close>; if it raises any other
  exception the failure is logged once and the task is saved with status \<open>FAILURE\<close> and
  the text of the failure as result; if it returns a value that is not a failure object
  the task is saved with status \<open>SUCCESS\<close> and that value as result, and if it returns
  a failure object the failure is logged once and the task is saved with status
  \<open>FAILURE\<close> and the text of the failure as result. In each case that last \<open>save_task\<close>
  carries \<open>time_ended\<close> and \<open>on_finish_task\<close> is called after it.
\<close>

theorem execute_task_outcome:
  assumes "states_wf st"
    and "name t = Some n" and "registry b n = Some j"
    and "status_code st t = Inr c" and "c > the (PRECEDENCE_MAPPING st STARTED)"
    and "expiry t = None \<or> \<not> clock b (clock_reads b) > the (expiry t)"
    and "args t = Some a" and "kwargs t = Some k"
  shows "new_events b (snd (execute_task st t b)) =
           [LoggerDebug ''starting task'',
            SaveTask (id_task t) [(''status'', PStr STARTED),
                                  (''time_started'', PDateTime (clock b (clock_reads b)))],
            OnStartTask (id_task t), CallJob (id_task t) a k] @
           (case body j a k of
              Raises TaskTimeout \<Rightarrow>
                [LoggerDebug ''timed-out'',
                 SaveTask (id_task t)
                   [(''time_ended'', PDateTime (clock b (clock_reads b))),
                    (''status'', PStr REVOKED), (''result'', PNone)]]
            | Raises e \<Rightarrow>
                [FailureLog (exn_text e),
                 SaveTask (id_task t)
                   [(''time_ended'', PDateTime (clock b (clock_reads b))),
                    (''status'', PStr FAILURE), (''result'', PStr (exn_text e))]]
            | Returns v \<Rightarrow>
                if is_failure v
                then [FailureLog (str_failure v),
                      SaveTask (id_task t)
                        [(''time_ended'', PDateTime (clock b (Suc (clock_reads b)))),
                         (''status'', PStr FAILURE), (''result'', PStr (str_failure v))]]
                else [SaveTask (id_task t)
                        [(''time_ended'', PDateTime (clock b (Suc (clock_reads b)))),
                         (''status'', PStr SUCCESS), (''result'', v)]]) @
           [LoggerDebug ''finished task'', OnFinishTask (id_task t), PostDoneTask (id_task t)]"
proof -
  from assms(1) obtain p where p: "PRECEDENCE_MAPPING st STARTED = Some p"
    using started_defined by blast
  with assms(5) have "c > p" by simp
  from execute_task_run [OF p assms(2,3,4) this assms(6,7,8)] show ?thesis .
qed

text \<open>
  The claim as stated, \<open>SUCCESS\<close> with the returned value whenever the body returns,
  does not hold: a body that returns a failure object is saved with \<open>FAILURE\<close>.
\<close>

theorem execute_task_outcome_counterexample:
  "body (ex_job (Returns (PFailure ''boom''))) [PInt 1, PInt 2] [] = Returns (PFailure ''boom'')
   \<and> new_events (ex_backend (Returns (PFailure ''boom'')) Map.empty)
        (snd (execute_task ex_states (ex_task PENDING)
               (ex_backend (Returns (PFailure ''boom'')) Map.empty)))
     = [LoggerDebug ''starting task'',
        SaveTask ''H'' [(''status'', PStr ''STARTED''), (''time_started'', PDateTime 100)],
        OnStartTask ''H'', CallJob ''H'' [PInt 1, PInt 2] [],
        FailureLog ''boom'',
        SaveTask ''H'' [(''time_ended'', PDateTime 101), (''status'', PStr ''FAILURE''),
                        (''result'', PStr ''boom'')],
        LoggerDebug ''finished task'', OnFinishTask ''H'', PostDoneTask ''H'']"
proof -
  let ?b = "ex_backend (Returns (PFailure ''boom'')) Map.empty"
  have p: "PRECEDENCE_MAPPING ex_states STARTED = Some 5"
    by (simp add: ex_states_def state_defs)
  have c: "status_code ex_states (ex_task PENDING) = Inr 8" "(8::int) > 5"
    by (simp_all add: status_code_def ex_defs state_defs)
  have r: "registry ?b ''x'' = Some (ex_job (Returns (PFailure ''boom'')))"
    by (simp add: ex_backend_def)
  have n: "name (ex_task PENDING) = Some ''x''"
    by (simp add: ex_task_def)
  show ?thesis
    using execute_task_run [OF p n r c, of "[PInt 1, PInt 2]" "[]"]
    by (simp add: ex_defs state_defs is_failure_def str_failure_def)
qed

lemma ex_run_hyps:
  "PRECEDENCE_MAPPING ex_states STARTED = Some 5"
  "status_code ex_states (ex_task PENDING) = Inr 8"
  "name (ex_task PENDING) = Some ''x''"
  "registry (ex_backend out Map.empty) ''x'' = Some (ex_job out)"
  "expiry (ex_task PENDING) = None"
  "args (ex_task PENDING) = Some [PInt 1, PInt 2]"
  "kwargs (ex_task PENDING) = Some []"
  "id_task (ex_task PENDING) = ''H''"
  "clock (ex_backend out Map.empty) (clock_reads (ex_backend out Map.empty)) = 100"
  "clock (ex_backend out Map.empty) (Suc (clock_reads (ex_backend out Map.empty))) = 101"
  "body (ex_job out) [PInt 1, PInt 2] [] = out"
  by (simp_all add: status_code_def ex_defs state_defs)

theorem execute_task_outcome_witness:
  "states_wf ex_states
   \<and> name (ex_task PENDING) = Some ''x''
   \<and> registry (ex_backend (Returns (PInt 42)) Map.empty) ''x'' = Some (ex_job (Returns (PInt 42)))
   \<and> status_code ex_states (ex_task PENDING) = Inr 8
   \<and> (8::int) > the (PRECEDENCE_MAPPING ex_states STARTED)
   \<and> expiry (ex_task PENDING) = None
   \<and> args (ex_task PENDING) = Some [PInt 1, PInt 2]
   \<and> kwargs (ex_task PENDING) = Some []
   \<and> new_events (ex_backend (Returns (PInt 42)) Map.empty)
        (snd (execute_task ex_states (ex_task PENDING)
               (ex_backend (Returns (PInt 42)) Map.empty)))
     = [LoggerDebug ''starting task'',
        SaveTask ''H'' [(''status'', PStr ''STARTED''), (''time_started'', PDateTime 100)],
        OnStartTask ''H'', CallJob ''H'' [PInt 1, PInt 2] [],
        SaveTask ''H'' [(''time_ended'', PDateTime 101), (''status'', PStr ''SUCCESS''),
                        (''result'', PInt 42)],
        LoggerDebug ''finished task'', OnFinishTask ''H'', PostDoneTask ''H'']
   \<and> new_events (ex_backend (Raises TaskTimeout) Map.empty)
        (snd (execute_task ex_states (ex_task PENDING)
               (ex_backend (Raises TaskTimeout) Map.empty)))
     = [LoggerDebug ''starting task'',
        SaveTask ''H'' [(''status'', PStr ''STARTED''), (''time_started'', PDateTime 100)],
        OnStartTask ''H'', CallJob ''H'' [PInt 1, PInt 2] [],
        LoggerDebug ''timed-out'',
        SaveTask ''H'' [(''time_ended'', PDateTime 100), (''status'', PStr ''REVOKED''),
                        (''result'', PNone)],
        LoggerDebug ''finished task'', OnFinishTask ''H'', PostDoneTask ''H'']
   \<and> new_events (ex_backend (Raises (OtherError ''bad'')) Map.empty)
        (snd (execute_task ex_states (ex_task PENDING)
               (ex_backend (Raises (OtherError ''bad'')) Map.empty)))
     = [LoggerDebug ''starting task'',
        SaveTask ''H'' [(''status'', PStr ''STARTED''), (''time_started'', PDateTime 100)],
        OnStartTask ''H'', CallJob ''H'' [PInt 1, PInt 2] [],
        FailureLog ''bad'',
        SaveTask ''H'' [(''time_ended'', PDateTime 100), (''status'', PStr ''FAILURE''),
                        (''result'', PStr ''bad'')],
        LoggerDebug ''finished task'', OnFinishTask ''H'', PostDoneTask ''H'']"
proof -
  have g: "(8::int) > the (PRECEDENCE_MAPPING ex_states STARTED)"
    by (simp add: ex_run_hyps)
  have e: "expiry (ex_task PENDING) = None \<or>
           \<not> clock (ex_backend out Map.empty) (clock_reads (ex_backend out Map.empty))
               > the (expiry (ex_task PENDING))" for out
    by (simp add: ex_run_hyps)
  show ?thesis
    using ex_states_wf g
      execute_task_outcome [OF ex_states_wf ex_run_hyps(3) ex_run_hyps(4) ex_run_hyps(2) g e
        ex_run_hyps(6) ex_run_hyps(7), of "Returns (PInt 42)"]
      execute_task_outcome [OF ex_states_wf ex_run_hyps(3) ex_run_hyps(4) ex_run_hyps(2) g e
        ex_run_hyps(6) ex_run_hyps(7), of "Raises TaskTimeout"]
      execute_task_outcome [OF ex_states_wf ex_run_hyps(3) ex_run_hyps(4) ex_run_hyps(2) g e
        ex_run_hyps(6) ex_run_hyps(7), of "Raises (OtherError ''bad'')"]
    by (simp add: ex_run_hyps [unfolded state_defs] is_failure_def state_defs)
qed

text \<open>
  C5 (as amended). For a task whose job is in the registry, whose \<open>status_code\<close> is
  strictly greater than the rank of \<open>STARTED\<close> and whose expiry is set: when the time
  the executor reads is later than the expiry, the body is not called, neither
  \<open>STARTED\<close> nor \<open>time_started\<close> is saved, and the one \<open>save_task\<close> writes status
  \<open>REVOKED\<close> with result \<open>None\<close>.
\<close>

theorem execute_task_expiry:
  assumes "states_wf st"
    and "name t = Some n" and "registry b n = Some j"
    and "status_code st t = Inr c" and "c > the (PRECEDENCE_MAPPING st STARTED)"
    and "expiry t = Some e" and "clock b (clock_reads b) > e"
  shows "new_events b (snd (execute_task st t b)) =
           [LoggerDebug ''timed-out'',
            SaveTask (id_task t) [(''time_ended'', PDateTime (clock b (clock_reads b))),
                                  (''status'', PStr REVOKED), (''result'', PNone)],
            LoggerDebug ''finished task'', OnFinishTask (id_task t), PostDoneTask (id_task t)]"
proof -
  from assms(1) obtain p where p: "PRECEDENCE_MAPPING st STARTED = Some p"
    using started_defined by blast
  with assms(5) have "c > p" by simp
  from execute_task_expired [OF p assms(2,3,4) this assms(6,7)] show ?thesis .
qed

text \<open>
  The claim as stated, for every such task, does not hold: an expired \<open>PENDING\<close> task
  whose name is not in the registry is saved with \<open>FAILURE\<close> and a result.
\<close>

theorem execute_task_expiry_counterexample:
  "status_code ex_states (ex_expired (ex_orphan PENDING)) = Inr 8
   \<and> (8::int) > the (PRECEDENCE_MAPPING ex_states STARTED)
   \<and> expiry (ex_expired (ex_orphan PENDING)) = Some 50
   \<and> clock (ex_backend (Returns (PInt 42)) Map.empty)
        (clock_reads (ex_backend (Returns (PInt 42)) Map.empty)) > 50
   \<and> new_events (ex_backend (Returns (PInt 42)) Map.empty)
        (snd (execute_task ex_states (ex_expired (ex_orphan PENDING))
               (ex_backend (Returns (PInt 42)) Map.empty)))
     = [FailureLog ''Task not in registry'',
        SaveTask ''H'' [(''time_ended'', PDateTime 100), (''status'', PStr ''FAILURE''),
                        (''result'', PStr ''Task not in registry'')],
        LoggerDebug ''finished task'', OnFinishTask ''H'', PostDoneTask ''H'']"
proof -
  have "(case name (ex_expired (ex_orphan PENDING)) of None \<Rightarrow> None
         | Some n \<Rightarrow> registry (ex_backend (Returns (PInt 42)) Map.empty) n) = None"
    by (simp add: ex_defs)
  from execute_task_unregistered [OF this, of ex_states] show ?thesis
    by (simp add: ex_defs status_code_def state_defs)
qed

theorem execute_task_expiry_witness:
  "states_wf ex_states
   \<and> name (ex_expired (ex_task PENDING)) = Some ''x''
   \<and> registry (ex_backend (Returns (PInt 42)) Map.empty) ''x'' = Some (ex_job (Returns (PInt 42)))
   \<and> status_code ex_states (ex_expired (ex_task PENDING)) = Inr 8
   \<and> (8::int) > the (PRECEDENCE_MAPPING ex_states STARTED)
   \<and> expiry (ex_expired (ex_task PENDING)) = Some 50
   \<and> clock (ex_backend (Returns (PInt 42)) Map.empty)
        (clock_reads (ex_backend (Returns (PInt 42)) Map.empty)) > 50
   \<and> new_events (ex_backend (Returns (PInt 42)) Map.empty)
        (snd (execute_task ex_states (ex_expired (ex_task PENDING))
               (ex_backend (Returns (PInt 42)) Map.empty)))
     = [LoggerDebug ''timed-out'',
        SaveTask ''H'' [(''time_ended'', PDateTime 100), (''status'', PStr ''REVOKED''),
                        (''result'', PNone)],
        LoggerDebug ''finished task'', OnFinishTask ''H'', PostDoneTask ''H'']"
proof -
  let ?b = "ex_backend (Returns (PInt 42)) Map.empty"
  let ?t = "ex_expired (ex_task PENDING)"
  have n: "name ?t = Some ''x''" by (simp add: ex_defs)
  have r: "registry ?b ''x'' = Some (ex_job (Returns (PInt 42)))" by (simp add: ex_defs)
  have sc: "status_code ex_states ?t = Inr 8"
    by (simp add: status_code_def ex_defs state_defs)
  have g: "(8::int) > the (PRECEDENCE_MAPPING ex_states STARTED)"
    by (simp add: ex_defs state_defs)
  have x: "expiry ?t = Some 50" by (simp add: ex_defs)
  have c: "clock ?b (clock_reads ?b) > 50" by (simp add: ex_defs)
  have i: "id_task ?t = ''H''" "clock ?b (clock_reads ?b) = 100" by (simp_all add: ex_defs)
  show ?thesis
    using ex_states_wf n r sc g x c execute_task_expiry [OF ex_states_wf n r sc g x c]
    by (simp add: i [unfolded state_defs] state_defs)
qed

section \<open>The scheduler tick\<close>

lemma map_of_set_entry:
  "map_of es k = Some e \<Longrightarrow> map_of (set_entry k e1 es) k = Some e1"
  by (induction es) (auto simp: set_entry_def)

lemma scheduled_last_run_at_keeps:
  "scheduled_last_run_at tu e = Some (Inr (l, e1)) \<Longrightarrow>
     entry_name e1 = entry_name e \<and> total_run_count e1 = total_run_count e
     \<and> last_run_at e1 = last_run_at e"
  by (auto simp: scheduled_last_run_at_def Let_def split: option.splits if_splits)

lemma entry_is_due_keeps:
  "entry_is_due tu e now = Some (Inr (r, e1)) \<Longrightarrow>
     entry_name e1 = entry_name e \<and> total_run_count e1 = total_run_count e
     \<and> last_run_at e1 = last_run_at e"
  by (auto simp: entry_is_due_def split: option.splits sum.splits prod.splits
      dest: scheduled_last_run_at_keeps)

lemma entries_emit [simp]: "entries (emit x b) = entries b" by (simp add: emit_def)
lemma entries_put_task [simp]: "entries (put_task i b) = entries b" by (simp add: put_task_def)
lemma entries_save_task [simp]: "entries (snd (save_task i kw b)) = entries b"
  by (simp add: save_task_def Let_def)
lemma entries_handle_task_done [simp]: "entries (snd (handle_task_done t b)) = entries b"
  by (simp add: handle_task_done_def fresh_task_id_def delete_tasks_def save_task_def Let_def)
lemma clock_handle_task_done [simp]:
  "clock (snd (handle_task_done t b)) = clock b"
  "clock_reads (snd (handle_task_done t b)) = clock_reads b"
  by (simp_all add: handle_task_done_def fresh_task_id_def delete_tasks_def save_task_def Let_def emit_def)
lemma fst_handle_task_done [simp]: "fst (handle_task_done t b) = None"
  by (simp add: handle_task_done_def fresh_task_id_def delete_tasks_def save_task_def Let_def)

lemma create_task_entries_created:
  assumes "registry b k = Some j" "job_name j = k" "entries b = Some es" "map_of es k = Some e"
    and "store b (create_task_id j [] []) = None
         \<or> (\<exists>t. store b (create_task_id j [] []) = Some t \<and> task_done t = Inr True)"
  shows "entries (snd (create_task k None None None [] b)) =
           Some (set_entry k (e\<lparr>last_run_at := clock b (clock_reads b),
                                 total_run_count := total_run_count e + 1\<rparr>) es)"
proof -
  let ?tid = "create_task_id j [] []"
  let ?b1 = "emit (GetTask (Some ?tid)) b"
  obtain b2 where b2: "(case store b ?tid of
                   None \<Rightarrow> Inr (None, ?b1)
                 | Some t \<Rightarrow>
                     (case task_done t of
                        Inl x \<Rightarrow> Inl x
                      | Inr d \<Rightarrow> if d then Inr (handle_task_done t ?b1)
                                 else Inr (Some t, ?b1)))
            = Inr (None, b2)" and e2: "entries b2 = Some es"
      and c2: "clock b2 = clock b" "clock_reads b2 = clock_reads b"
    using assms(3,5)
    by (cases "store b ?tid") (auto simp: prod_eq_iff emit_def)
  have adv: "advance_entry j b2 =
     b2\<lparr>clock_reads := Suc (clock_reads b),
        entries := Some (set_entry k (e\<lparr>last_run_at := clock b (clock_reads b),
                                 total_run_count := total_run_count e + 1\<rparr>) es)\<rparr>"
    using assms(2,4) e2 c2
    by (simp add: advance_entry_def entry_next_def datetime_now_def)
  show ?thesis
    using assms(1) b2 adv
    by (simp add: create_task_def get_task_def Let_def datetime_now_def save_task_def
        repeated_keyword_def split: sum.splits)
qed

lemma create_task_entries_absorbed:
  assumes "registry b k = Some j" "store b (create_task_id j [] []) = Some t"
    "task_done t = Inr False"
  shows "entries (snd (create_task k None None None meta b)) = entries b
       \<and> fst (create_task k None None None meta b) = Inr None"
  using assms by (simp add: create_task_def get_task_def Let_def)

lemma run_job_entries:
  "entries (snd (run_job k a kw x meta b)) = entries (snd (create_task k a kw x meta b))"
  by (simp add: run_job_def run_job_internal_def split: prod.splits sum.splits option.splits)


lemma set_entry_other:
  "k' \<noteq> k \<Longrightarrow> map_of (set_entry k' e1 es) k = map_of es k"
  by (induction es) (auto simp: set_entry_def)

lemma tick_entry_due:
  assumes "entries b = Some es" "map_of es k = Some e"
    "entry_is_due tu e now = Some (Inr ((True, nxt), e1))"
  shows "tick_entry tu now k rts b =
           Some ((None, if nxt \<noteq> 0 then rts @ [nxt] else rts),
                 snd (run_job (entry_name e1) None None None []
                        (b\<lparr>entries := Some (set_entry k e1 es)\<rparr>)))"
  using assms by (simp add: tick_entry_def Let_def)


lemma ex_entry_due:
  "entry_is_due ex_timeutils ex_entry (Some 60) = Some (Inr ((True, 60), ex_entry))"
  by (simp add: entry_is_due_def scheduled_last_run_at_def schedule_is_due_def ex_defs)

lemma ex_tick_entry_fresh:
  "map_option (\<lambda>p. map_of (the (entries (snd p))) ''x'')
     (tick_entry ex_timeutils (Some 60) ''x'' [] (ex_periodic Map.empty))
   = Some (Some (ex_entry\<lparr>last_run_at := 100, total_run_count := 1\<rparr>))"
  by (simp add: tick_entry_def ex_entry_due [unfolded ex_entry_def] Let_def ex_periodic_def ex_backend_def
      run_job_def run_job_internal_def create_task_def get_task_def emit_def ex_job_def
      create_task_id_def advance_entry_def entry_next_def datetime_now_def set_entry_def
      save_task_def put_task_def truthy_timeout_def compute_expiry_def
      repeated_keyword_def ex_entry_def)

text \<open>
  C7 (as amended). When the loop of \<open>tick\<close> reaches an entry that is due, it calls
  \<open>run_job\<close> for it. If no task, or only a done task, is stored under the id the job
  computes, the entry's \<open>total_run_count\<close> increases by exactly 1 and its
  \<open>last_run_at\<close> becomes the time read from the wall clock when \<open>create_task\<close> advances
  the entry, whatever \<open>now\<close> was passed to \<open>tick\<close>. If a task that is not done is
  stored under that id, the request is dropped and the entry keeps its count and its
  \<open>last_run_at\<close>.
\<close>

theorem tick_entry_advances:
  assumes "entries b = Some es" and "map_of es k = Some e" and "entry_name e = k"
    and "entry_is_due tu e now = Some (Inr ((True, nxt), e1))"
    and "registry b k = Some j" and "job_name j = k"
  shows "\<exists>r b'. tick_entry tu now k rts b = Some (r, b')
          \<and> (store b (create_task_id j [] []) = None
               \<or> (\<exists>t. store b (create_task_id j [] []) = Some t \<and> task_done t = Inr True)
              \<longrightarrow> (\<exists>e'. map_of (the (entries b')) k = Some e'
                    \<and> total_run_count e' = total_run_count e + 1
                    \<and> last_run_at e' = clock b (clock_reads b)))
          \<and> ((\<exists>t. store b (create_task_id j [] []) = Some t \<and> task_done t = Inr False)
              \<longrightarrow> (\<exists>e'. map_of (the (entries b')) k = Some e'
                    \<and> total_run_count e' = total_run_count e
                    \<and> last_run_at e' = last_run_at e))"
proof -
  let ?b1 = "b\<lparr>entries := Some (set_entry k e1 es)\<rparr>"
  let ?b' = "snd (run_job k None None None [] ?b1)"
  from entry_is_due_keeps [OF assms(4)] assms(3)
  have k1: "entry_name e1 = k" "total_run_count e1 = total_run_count e"
    "last_run_at e1 = last_run_at e" by simp_all
  have t: "tick_entry tu now k rts b =
             Some ((None, if nxt \<noteq> 0 then rts @ [nxt] else rts), ?b')"
    using tick_entry_due [OF assms(1,2,4)] k1(1) by simp
  have m1: "map_of (set_entry k e1 es) k = Some e1"
    using assms(2) by (rule map_of_set_entry)
  have r1: "registry ?b1 k = Some j" using assms(5) by simp
  have e1: "entries ?b1 = Some (set_entry k e1 es)" by simp
  have created: "\<exists>e'. map_of (the (entries ?b')) k = Some e'
                    \<and> total_run_count e' = total_run_count e + 1
                    \<and> last_run_at e' = clock b (clock_reads b)"
    if c: "store b (create_task_id j [] []) = None
           \<or> (\<exists>t. store b (create_task_id j [] []) = Some t \<and> task_done t = Inr True)"
  proof -
    from c have c1: "store ?b1 (create_task_id j [] []) = None
           \<or> (\<exists>t. store ?b1 (create_task_id j [] []) = Some t \<and> task_done t = Inr True)"
      by simp
    from create_task_entries_created [OF r1 assms(6) e1 m1 c1]
    have "entries ?b' =
           Some (set_entry k (e1\<lparr>last_run_at := clock b (clock_reads b),
                                 total_run_count := total_run_count e1 + 1\<rparr>)
                   (set_entry k e1 es))"
      by (simp add: run_job_entries)
    then show ?thesis using map_of_set_entry [OF m1] k1 by simp
  qed
  have absorbed: "\<exists>e'. map_of (the (entries ?b')) k = Some e'
                    \<and> total_run_count e' = total_run_count e
                    \<and> last_run_at e' = last_run_at e"
    if c: "\<exists>t. store b (create_task_id j [] []) = Some t \<and> task_done t = Inr False"
  proof -
    from c obtain t where t: "store ?b1 (create_task_id j [] []) = Some t"
        "task_done t = Inr False"
      by auto
    from create_task_entries_absorbed [OF r1 t, of "[]"]
    have "entries ?b' = Some (set_entry k e1 es)" by (simp add: run_job_entries)
    then show ?thesis using m1 k1 by simp
  qed
  show ?thesis using t created absorbed by blast
qed

text \<open>
  The claim as stated does not hold. A tick at \<open>now = 60\<close> with the wall clock at 100
  fires the entry and leaves \<open>last_run_at = 100\<close>; and with a pending task stored under
  the job's id the entry is fired but \<open>total_run_count\<close> stays 0.
\<close>

theorem tick_advances_counterexample:
  "entry_is_due ex_timeutils ex_entry (Some 60) = Some (Inr ((True, 60), ex_entry))
   \<and> map_option (\<lambda>b. map_of (the (entries b)) ''x'')
        (tick ex_timeutils (Some 60) (ex_periodic Map.empty))
     = Some (Some (ex_entry\<lparr>last_run_at := 100, total_run_count := 1\<rparr>))
   \<and> last_run_at (ex_entry\<lparr>last_run_at := 100, total_run_count := 1\<rparr>) \<noteq> 60
   \<and> map_option (\<lambda>b. map_of (the (entries b)) ''x'')
        (tick ex_timeutils (Some 60) (ex_periodic [''H'' \<mapsto> ex_task PENDING]))
     = Some (Some ex_entry)
   \<and> total_run_count ex_entry = 0"
  by (simp add: tick_def tick_entry_def ex_entry_due [unfolded ex_entry_def] Let_def ex_periodic_def ex_backend_def
      run_job_def run_job_internal_def create_task_def get_task_def emit_def ex_job_def
      create_task_id_def advance_entry_def entry_next_def datetime_now_def set_entry_def
      save_task_def put_task_def truthy_timeout_def compute_expiry_def
      repeated_keyword_def ex_entry_def task_done_def ex_task_def
      Task_def state_defs)

theorem tick_entry_advances_witness:
  "entries (ex_periodic Map.empty) = Some [(''x'', ex_entry)]
   \<and> map_of [(''x'', ex_entry)] ''x'' = Some ex_entry
   \<and> entry_name ex_entry = ''x''
   \<and> entry_is_due ex_timeutils ex_entry (Some 60) = Some (Inr ((True, 60), ex_entry))
   \<and> registry (ex_periodic Map.empty) ''x'' = Some (ex_job (Returns (PInt 42)))
   \<and> job_name (ex_job (Returns (PInt 42))) = ''x''
   \<and> store (ex_periodic Map.empty) (create_task_id (ex_job (Returns (PInt 42))) [] []) = None
   \<and> map_option
        (\<lambda>p. map_option (\<lambda>e. (total_run_count e, last_run_at e))
               (map_of (the (entries (snd p))) ''x''))
        (tick_entry ex_timeutils (Some 60) ''x'' [] (ex_periodic Map.empty))
     = Some (Some (1, 100))
   \<and> store (ex_periodic [''H'' \<mapsto> ex_task PENDING])
        (create_task_id (ex_job (Returns (PInt 42))) [] []) = Some (ex_task PENDING)
   \<and> task_done (ex_task PENDING) = Inr False
   \<and> map_option
        (\<lambda>p. map_option (\<lambda>e. (total_run_count e, last_run_at e))
               (map_of (the (entries (snd p))) ''x''))
        (tick_entry ex_timeutils (Some 60) ''x'' [] (ex_periodic [''H'' \<mapsto> ex_task PENDING]))
     = Some (Some (0, 0))"
proof -
  let ?j = "ex_job (Returns (PInt 42))"
  have h1: "entries (ex_periodic m) = Some [(''x'', ex_entry)]" for m
    by (simp add: ex_periodic_def)
  have h2: "map_of [(''x'', ex_entry)] ''x'' = Some ex_entry" by simp
  have h3: "entry_name ex_entry = ''x''" by (simp add: ex_entry_def)
  have h5: "registry (ex_periodic m) ''x'' = Some ?j" for m
    by (simp add: ex_periodic_def ex_backend_def)
  have h6: "job_name ?j = ''x''" by (simp add: ex_job_def)
  have c1: "store (ex_periodic Map.empty) (create_task_id ?j [] []) = None"
    by (simp add: ex_periodic_def ex_backend_def)
  have c2: "store (ex_periodic [''H'' \<mapsto> ex_task PENDING]) (create_task_id ?j [] [])
              = Some (ex_task PENDING)"
    by (simp add: ex_periodic_def ex_backend_def create_task_id_def ex_job_def)
  have d: "task_done (ex_task PENDING) = Inr False"
    by (simp add: task_done_def ex_task_def Task_def state_defs)
  have v: "clock (ex_periodic m) (clock_reads (ex_periodic m)) = 100"
    "total_run_count ex_entry = 0" "last_run_at ex_entry = 0" for m
    by (simp_all add: ex_periodic_def ex_backend_def ex_entry_def)
  have a: "map_option
        (\<lambda>p. map_option (\<lambda>e. (total_run_count e, last_run_at e))
               (map_of (the (entries (snd p))) ''x''))
        (tick_entry ex_timeutils (Some 60) ''x'' [] (ex_periodic Map.empty))
     = Some (Some (1, 100))"
    using tick_entry_advances [OF h1 [of Map.empty] h2 h3 ex_entry_due h5 [of Map.empty] h6,
        where rts = "[]"] c1 v
    by auto
  have b: "map_option
        (\<lambda>p. map_option (\<lambda>e. (total_run_count e, last_run_at e))
               (map_of (the (entries (snd p))) ''x''))
        (tick_entry ex_timeutils (Some 60) ''x'' [] (ex_periodic [''H'' \<mapsto> ex_task PENDING]))
     = Some (Some (0, 0))"
    using tick_entry_advances [OF h1 [of "[''H'' \<mapsto> ex_task PENDING]"] h2 h3 ex_entry_due
        h5 [of "[''H'' \<mapsto> ex_task PENDING]"] h6, where rts = "[]"] c2 d v
    by auto
  show ?thesis using h1 h2 h3 ex_entry_due h5 h6 c1 c2 d a b by simp
qed

section \<open>The polling loop and the backlog\<close>

lemma poll_loop_no_pool_aux:
  "poll_loop w = Some w' \<Longrightarrow> \<not> (running w \<and> \<not> thread_pool w)"
proof (induction w w' rule: poll_loop.raw_induct [rotated 1, consumes 1, case_names body])
  case (body f w w')
  show ?case
  proof
    assume c: "running w \<and> \<not> thread_pool w"
    with body(2) have
      "f (w\<lparr>trace := trace w @ [LoggerWarning ''No thread pool, cannot poll tasks.'']\<rparr>) = Some w'"
      by simp
    from body(1) [OF this] c show False by simp
  qed
qed

lemma poll_loop_no_pool: "running w \<Longrightarrow> \<not> thread_pool w \<Longrightarrow> poll_loop w = None"
  using poll_loop_no_pool_aux [of w] by (cases "poll_loop w") auto

lemma poll_loop_result:
  "poll_loop w = Some w' \<Longrightarrow>
     concurrent_requests w' = concurrent_requests w \<and> backlog w' = backlog w
     \<and> posted w' = posted w \<and> pool_tasks w' = pool_tasks w
     \<and> (poller w' = Suspended \<longrightarrow> concurrent_requests w' < backlog w')"
proof (induction w w' rule: poll_loop.raw_induct [rotated 1, consumes 1, case_names body])
  case (body f w w')
  show ?case
  proof (cases "running w \<and> \<not> thread_pool w")
    case True
    with body(2) have
      "f (w\<lparr>trace := trace w @ [LoggerWarning ''No thread pool, cannot poll tasks.'']\<rparr>) = Some w'"
      by simp
    from body(1) [OF this] show ?thesis by auto
  next
    case False
    with body(2) show ?thesis
      by (auto simp: call_soon_poller_def split: if_splits)
  qed
qed

lemma step_inv: "step w w' \<Longrightarrow> backlog_inv w \<Longrightarrow> backlog_inv w' \<and> backlog w' = backlog w"
proof (induction rule: step.induct)
  case (poll w w')
  then show ?case using poll_loop_result [of w w']
    by (auto simp: backlog_inv_def may_pool_task_def)
next
  case (resume w r w')
  then show ?case
  proof (cases r)
    case None
    with resume show ?thesis using poll_loop_result [of w w']
      by (auto simp: backlog_inv_def resume_poll_def)
  next
    case (Some t)
    with resume show ?thesis
      using poll_loop_result [of "w\<lparr>concurrent_requests := concurrent_requests w + 1,
                       pool_tasks := pool_tasks w @ [t],
                       trace := trace w @ [ApplyAsync (id_task t)]\<rparr>" w']
      by (auto simp: backlog_inv_def resume_poll_def)
  qed
next
  case (finish w ts t ts')
  then show ?case by (simp add: backlog_inv_def)
next
  case (done_cb w i "is")
  then show ?case by (auto simp add: backlog_inv_def done_task_def)
next
  case (stop w)
  then show ?case by (simp add: backlog_inv_def)
qed

lemma reachable_inv:
  "reachable r tp bl w \<Longrightarrow> 0 \<le> bl \<Longrightarrow> backlog_inv w \<and> backlog w = bl"
proof (induction rule: reachable.induct)
  case (init r tp bl)
  then show ?case by (simp add: backlog_inv_def start_def)
next
  case (next_turn r tp bl w w')
  then show ?case using step_inv [of w w'] by simp
qed

text \<open>
  C6. In every state the worker's event loop can reach from \<open>start\<close> with a backlog
  that is not negative, \<open>concurrent_requests\<close> is at most \<open>backlog\<close>: the poller adds
  one only after it has seen \<open>concurrent_requests < backlog\<close>, it leaves its loop when
  the bound is reached, and the only other change is the decrement by \<open>_done_task\<close>.
\<close>

theorem backlog_bound:
  assumes "0 \<le> bl" and "reachable r tp bl w"
  shows "concurrent_requests w \<le> backlog w \<and> backlog w = bl"
  using reachable_inv [OF assms(2) assms(1)] by (simp add: backlog_inv_def)


lemma ex_busy_reachable: "reachable True True 2 ex_busy"
proof -
  let ?w1 = "(start True True 2)\<lparr>poller := Suspended, trace := [GetTask None]\<rparr>"
  let ?w2 = "?w1\<lparr>concurrent_requests := 1, pool_tasks := [ex_task PENDING],
                  trace := [GetTask None, ApplyAsync ''H'', GetTask None]\<rparr>"
  have p1: "may_pool_task (start True True 2) = Some ?w1"
    unfolding may_pool_task_def by (subst poll_loop.simps) (simp add: start_def)
  have p2: "resume_poll (Some (ex_task PENDING)) ?w1 = Some ?w2"
    unfolding resume_poll_def by (subst poll_loop.simps) (simp add: start_def ex_defs)
  have p3: "resume_poll (Some (ex_task PENDING)) ?w2 = Some ex_busy"
    unfolding resume_poll_def
    by (subst poll_loop.simps) (simp add: start_def ex_defs ex_busy_def call_soon_poller_def)
  have "reachable True True 2 ?w1"
    using reachable.init step.poll [OF _ p1] by (rule reachable.next_turn) (simp add: start_def)
  then have "reachable True True 2 ?w2"
    using step.resume [OF _ p2] by (rule reachable.next_turn) simp
  then show ?thesis
    using step.resume [OF _ p3] by (rule reachable.next_turn) simp
qed

theorem backlog_bound_witness:
  "(0::int) \<le> 2 \<and> reachable True True 2 ex_busy
   \<and> concurrent_requests ex_busy \<le> backlog ex_busy \<and> backlog ex_busy = 2
   \<and> concurrent_requests ex_busy = 2"
proof -
  have h: "(0::int) \<le> 2" by simp
  show ?thesis
    using h ex_busy_reachable backlog_bound [OF h ex_busy_reachable]
    by (simp add: ex_busy_def)
qed

text \<open>
  C8. With the worker running and no thread pool, \<open>may_pool_task\<close> neither reaches its
  \<open>yield\<close> nor its \<open>call_soon\<close>: the branch logs the warning and goes round the
  \<open>while\<close> loop again, for ever. The run has no result.
\<close>

theorem may_pool_task_no_pool_spins: "may_pool_task ex_worker = None"
  by (simp add: may_pool_task_def ex_worker_def start_def poll_loop_no_pool)

end
